theory Spec2Isabelle
  imports Main
begin

section \<open>Machine model\<close>

text \<open>
  The sorter of \<^verbatim>\<open>sfx-sain.c\<close> works on one output array \<^verbatim>\<open>suftab\<close> of
  \<^verbatim>\<open>unsigned long\<close> that the induction passes read through a \<^verbatim>\<open>long *\<close>, and on
  bucket arrays that are either heap blocks of their own or regions at the tail of
  \<^verbatim>\<open>suftab\<close>.  The recursive levels read their input sequence out of \<^verbatim>\<open>suftab\<close>
  as well.  The model therefore keeps one explicit store: a list of blocks, block 0 being
  \<^verbatim>\<open>suftab\<close>, and pointers (block, offset) into it.

  \<^verbatim>\<open>unsigned long\<close> is taken to be 64 bits wide.  Cells hold the unsigned value as a
  \<open>nat\<close>; \<open>s64\<close> reads a cell as \<^verbatim>\<open>long\<close> and \<open>u64\<close> stores a \<^verbatim>\<open>long\<close>.
  Unsigned subtraction wraps (\<open>ul_sub\<close>); sums are not reduced, every sum the code forms
  is bounded by a small multiple of the array sizes.
\<close>

datatype error =
    Out_of_bounds
  | Null_pointer
  | Uninitialised_read
  | Assertion_failed nat
  | Lightweight_check_failed
  | Order_violation nat

definition ulong_range :: nat where
  "ulong_range = 18446744073709551616"

definition ul_sub :: "nat \<Rightarrow> nat \<Rightarrow> nat" where
  "ul_sub a b = (if b \<le> a then a - b else (a + ulong_range - b) mod ulong_range)"

definition s64 :: "nat \<Rightarrow> int" where
  "s64 v = (if v < 9223372036854775808 then int v else int v - 18446744073709551616)"

definition u64 :: "int \<Rightarrow> nat" where
  "u64 x = nat (x mod 18446744073709551616)"

text \<open>The bitwise complement \<^verbatim>\<open>~position\<close> of a \<^verbatim>\<open>long\<close>.\<close>

definition compl :: "int \<Rightarrow> int" where
  "compl x = - x - 1"

fun nth_opt :: "'a list \<Rightarrow> nat \<Rightarrow> 'a option" where
  "nth_opt [] i = None"
| "nth_opt (x # xs) i = (if i = 0 then Some x else nth_opt xs (i - 1))"

fun upd_opt :: "'a list \<Rightarrow> nat \<Rightarrow> 'a \<Rightarrow> 'a list option" where
  "upd_opt [] i v = None"
| "upd_opt (x # xs) i v =
     (if i = 0 then Some (v # xs)
      else (case upd_opt xs (i - 1) v of None \<Rightarrow> None | Some ys \<Rightarrow> Some (x # ys)))"

datatype ptr = Null | Ptr nat nat

type_synonym heap = "nat list list"

text \<open>\<^verbatim>\<open>p[i]\<close> as an rvalue and \<^verbatim>\<open>p[i] = v\<close>; an access outside the block is an error.\<close>

fun rd :: "heap \<Rightarrow> ptr \<Rightarrow> nat \<Rightarrow> error + nat" where
  "rd h Null i = Inl Null_pointer"
| "rd h (Ptr b off) i =
     (case nth_opt h b of None \<Rightarrow> Inl Out_of_bounds
      | Some blk \<Rightarrow> (case nth_opt blk (off + i) of None \<Rightarrow> Inl Out_of_bounds | Some v \<Rightarrow> Inr v))"

fun wr :: "heap \<Rightarrow> ptr \<Rightarrow> nat \<Rightarrow> nat \<Rightarrow> error + heap" where
  "wr h Null i v = Inl Null_pointer"
| "wr h (Ptr b off) i v =
     (case nth_opt h b of None \<Rightarrow> Inl Out_of_bounds
      | Some blk \<Rightarrow>
          (case upd_opt blk (off + i) v of None \<Rightarrow> Inl Out_of_bounds
           | Some blk' \<Rightarrow>
               (case upd_opt h b blk' of None \<Rightarrow> Inl Out_of_bounds | Some h' \<Rightarrow> Inr h')))"

text \<open>\<^verbatim>\<open>p + k\<close>.\<close>

fun ptr_add :: "ptr \<Rightarrow> nat \<Rightarrow> ptr" where
  "ptr_add Null k = Null"
| "ptr_add (Ptr b off) k = Ptr b (off + k)"

text \<open>
  \<^verbatim>\<open>gt_malloc\<close> and \<^verbatim>\<open>gt_calloc\<close> of \<open>n\<close> cells: a fresh block.  The content of
  a \<^verbatim>\<open>gt_malloc\<close>ed block is indeterminate in C; the model fills it with 0, and the code
  writes every such cell before it reads it.  \<^verbatim>\<open>gt_free\<close> leaves the store as it is.
\<close>

definition alloc :: "heap \<Rightarrow> nat \<Rightarrow> heap \<times> ptr" where
  "alloc h n = (h @ [replicate n 0], Ptr (length h) 0)"

definition suftab_ptr :: ptr where
  "suftab_ptr = Ptr 0 0"

text \<open>What the code prints on \<^verbatim>\<open>stdout\<close>, one event for each \<^verbatim>\<open>printf\<close> executed.\<close>

datatype event =
    Ev_level nat nat nat
  | Ev_buffer nat nat
  | Ev_bucketsize nat nat
  | Ev_sstar nat nat
  | Ev_timer string

record state =
  heap :: heap
  out :: "event list"


section \<open>Collaborators that the sources reference but do not define\<close>

text \<open>
  The macros \<^verbatim>\<open>GT_UNIQUEINT\<close>, \<^verbatim>\<open>GT_FIRSTTWOBITS\<close>, \<^verbatim>\<open>GT_COMPAREOFFSET\<close> and
  \<^verbatim>\<open>GT_COMPLEMENTBASE\<close>, the function \<^verbatim>\<open>gt_determinebitspervalue\<close> and the order
  check \<^verbatim>\<open>gt_suftab_lightweightcheck\<close> are used by \<^verbatim>\<open>sfx-sain.c\<close> and defined
  elsewhere.  They are parameters of the model, collected in one record \<open>gt_env\<close> that
  every function using one of them receives.
\<close>

text \<open>\<^verbatim>\<open>GT_MULT2\<close>, \<^verbatim>\<open>GT_MULT4\<close> and \<^verbatim>\<open>GT_DIV2\<close>: the shifts their names say.\<close>

definition GT_MULT2 :: "nat \<Rightarrow> nat" where
  "GT_MULT2 x = 2 * x"

definition GT_MULT4 :: "nat \<Rightarrow> nat" where
  "GT_MULT4 x = 4 * x"

definition GT_DIV2 :: "nat \<Rightarrow> nat" where
  "GT_DIV2 x = x div 2"

datatype GtReadmode =
    GT_READMODE_FORWARD
  | GT_READMODE_REVERSE
  | GT_READMODE_COMPL
  | GT_READMODE_REVCOMPL

text \<open>
  Modelled from the spec: the read-mode predicates \<^verbatim>\<open>GT_ISDIRREVERSE\<close> and
  \<^verbatim>\<open>GT_ISDIRCOMPLEMENT\<close> are not in the sources; a read mode has a direction and may
  complement.
\<close>

definition GT_ISDIRREVERSE :: "GtReadmode \<Rightarrow> bool" where
  "GT_ISDIRREVERSE r = (r = GT_READMODE_REVERSE \<or> r = GT_READMODE_REVCOMPL)"

definition GT_ISDIRCOMPLEMENT :: "GtReadmode \<Rightarrow> bool" where
  "GT_ISDIRCOMPLEMENT r = (r = GT_READMODE_COMPL \<or> r = GT_READMODE_REVCOMPL)"

text \<open>
  Modelled from the spec: the encoded sequence \<^verbatim>\<open>GtEncseq\<close> and its interface
  (\<^verbatim>\<open>total_length\<close>, \<^verbatim>\<open>alphabet_size\<close>, \<^verbatim>\<open>char_count\<close>, \<^verbatim>\<open>get_encoded_char\<close>,
  \<^verbatim>\<open>has_special_ranges\<close>, \<^verbatim>\<open>special_characters\<close>, the special-range iterator and
  \<^verbatim>\<open>range_reverse\<close>) are not in the sources.  An encoded sequence is the list of its
  stored symbols in forward order, each an ordinary symbol or the special marker
  (\<open>None\<close>), together with the alphabet size.  The accessor with a reverse read mode
  reads position \<open>N - 1 - i\<close>, with a complement read mode it returns the complement
  base of an ordinary symbol.
\<close>

record gt_encseq =
  enc_symbols :: "nat option list"
  enc_numofchars :: nat

text \<open>
  The macros and functions of the record below are used by \<^verbatim>\<open>sfx-sain.c\<close> and defined
  elsewhere; \<^verbatim>\<open>gt_suftab_lightweightcheck\<close> is the external order check, \<open>True\<close>
  when it returns and \<open>False\<close> when it aborts.
\<close>

record gt_env =
  GT_UNIQUEINT :: "nat \<Rightarrow> nat"
  GT_FIRSTTWOBITS :: nat
  GT_COMPAREOFFSET :: nat
  GT_COMPLEMENTBASE :: "nat \<Rightarrow> nat"
  gt_determinebitspervalue :: "nat \<Rightarrow> nat"
  gt_suftab_lightweightcheck :: "gt_encseq \<Rightarrow> GtReadmode \<Rightarrow> nat \<Rightarrow> nat list \<Rightarrow> bool"

definition gt_encseq_total_length :: "gt_encseq \<Rightarrow> nat" where
  "gt_encseq_total_length e = length (enc_symbols e)"

definition gt_encseq_alphabetnumofchars :: "gt_encseq \<Rightarrow> nat" where
  "gt_encseq_alphabetnumofchars e = enc_numofchars e"

definition gt_encseq_charcount :: "gt_encseq \<Rightarrow> nat \<Rightarrow> nat" where
  "gt_encseq_charcount e c = length (filter (\<lambda>x. x = Some c) (enc_symbols e))"

definition gt_encseq_specialcharacters :: "gt_encseq \<Rightarrow> nat" where
  "gt_encseq_specialcharacters e = length (filter (\<lambda>x. x = None) (enc_symbols e))"

definition gt_encseq_has_specialranges :: "gt_encseq \<Rightarrow> bool" where
  "gt_encseq_has_specialranges e = (None \<in> set (enc_symbols e))"

definition gt_encseq_get_encoded_char ::
  "gt_env \<Rightarrow> gt_encseq \<Rightarrow> nat \<Rightarrow> GtReadmode \<Rightarrow> error + nat option" where
  "gt_encseq_get_encoded_char env e position readmode =
     (if position < gt_encseq_total_length e then
        (case nth_opt (enc_symbols e)
                (if GT_ISDIRREVERSE readmode
                 then gt_encseq_total_length e - 1 - position else position) of
           None \<Rightarrow> Inl Out_of_bounds
         | Some None \<Rightarrow> Inr None
         | Some (Some c) \<Rightarrow>
             Inr (Some (if GT_ISDIRCOMPLEMENT readmode then GT_COMPLEMENTBASE env c else c)))
      else Inl Out_of_bounds)"

text \<open>
  The maximal intervals \<open>[start, end)\<close> of special positions, in forward order;
  \<open>run\<close> is the interval still open at position \<open>i\<close>.
\<close>

fun special_ranges_from :: "nat option list \<Rightarrow> nat \<Rightarrow> nat option \<Rightarrow> (nat \<times> nat) list" where
  "special_ranges_from [] i run = (case run of None \<Rightarrow> [] | Some a \<Rightarrow> [(a, i)])"
| "special_ranges_from (None # xs) i run =
     special_ranges_from xs (i + 1) (case run of None \<Rightarrow> Some i | Some a \<Rightarrow> Some a)"
| "special_ranges_from (Some c # xs) i run =
     (case run of None \<Rightarrow> special_ranges_from xs (i + 1) None
      | Some a \<Rightarrow> (a, i) # special_ranges_from xs (i + 1) None)"

text \<open>
  \<^verbatim>\<open>gt_specialrangeiterator_new(encseq, moveforward)\<close> followed by
  \<^verbatim>\<open>gt_specialrangeiterator_next\<close> until it is exhausted: the ranges in the order of
  the requested direction.
\<close>

definition gt_specialrangeiterator :: "gt_encseq \<Rightarrow> bool \<Rightarrow> (nat \<times> nat) list" where
  "gt_specialrangeiterator e moveforward =
     (if moveforward then special_ranges_from (enc_symbols e) 0 None
      else rev (special_ranges_from (enc_symbols e) 0 None))"

definition gt_range_reverse :: "nat \<Rightarrow> nat \<times> nat \<Rightarrow> nat \<times> nat" where
  "gt_range_reverse totallength r = (totallength - snd r, totallength - fst r)"

section \<open>The sequence view \<^verbatim>\<open>GtSainseq\<close>\<close>

datatype GtSainSeqtype = GT_SAIN_PLAINSEQ | GT_SAIN_INTSEQ | GT_SAIN_ENCSEQ

text \<open>The union \<^verbatim>\<open>seq\<close> with its tag \<^verbatim>\<open>seqtype\<close>.\<close>

datatype seq_union =
    Encseq gt_encseq
  | Plainseq string
  | Array ptr

fun seqtype_of :: "seq_union \<Rightarrow> GtSainSeqtype" where
  "seqtype_of (Encseq e) = GT_SAIN_ENCSEQ"
| "seqtype_of (Plainseq p) = GT_SAIN_PLAINSEQ"
| "seqtype_of (Array a) = GT_SAIN_INTSEQ"

record GtSainseq =
  totallength :: nat
  numofchars :: nat
  currentround :: nat
  bucketsize :: ptr
  bucketfillptr :: ptr
  sstarfirstcharcount :: ptr
  roundtable :: ptr
  seq :: seq_union
  readmode :: GtReadmode
  bucketfillptrpoints2suftab :: bool
  bucketsizepoints2suftab :: bool
  roundtablepoints2suftab :: bool

definition seqtype :: "GtSainseq \<Rightarrow> GtSainSeqtype" where
  "seqtype s = seqtype_of (seq s)"

text \<open>
  The constructors pass \<^verbatim>\<open>totallength+GT_COMPAREOFFSET\<close> and \<^verbatim>\<open>len+1\<close> as \<^verbatim>\<open>maxvalue\<close>; both
  sums are formed in \<^verbatim>\<open>unsigned long\<close> and wrap around at \<open>ulong_range\<close>.
\<close>

definition gt_sain_decideforfastmethod :: "gt_env \<Rightarrow> nat \<Rightarrow> nat \<Rightarrow> bool" where
  "gt_sain_decideforfastmethod env maxvalue len =
     (if maxvalue < GT_FIRSTTWOBITS env \<and> len > 1024 then True else False)"

text \<open>\<^verbatim>\<open>for (idx = 0; idx < numofchars; idx++) bucketsize[idx] = charcount(...)\<close>\<close>

function encseq_bucketsizes ::
  "gt_env \<Rightarrow> gt_encseq \<Rightarrow> GtReadmode \<Rightarrow> ptr \<Rightarrow> nat \<Rightarrow> nat \<Rightarrow> heap \<Rightarrow> error + heap" where
  "encseq_bucketsizes env encseq rm bs n idx h =
     (if idx < n then
        (case wr h bs idx
                (if GT_ISDIRCOMPLEMENT rm
                 then gt_encseq_charcount encseq (GT_COMPLEMENTBASE env idx mod 256)
                 else gt_encseq_charcount encseq (idx mod 256)) of
           Inl e \<Rightarrow> Inl e
         | Inr h' \<Rightarrow> encseq_bucketsizes env encseq rm bs n (idx + 1) h')
      else Inr h)"
  by pat_completeness auto
termination
  by (relation "measure (\<lambda>(env, encseq, rm, bs, n, idx, h). n - idx)") auto

declare encseq_bucketsizes.simps [simp del]

definition gt_sainseq_new_from_encseq ::
  "gt_env \<Rightarrow> gt_encseq \<Rightarrow> GtReadmode \<Rightarrow> heap \<Rightarrow> error + (heap \<times> GtSainseq)" where
  "gt_sainseq_new_from_encseq env encseq rm h0 =
     (case alloc h0 (gt_encseq_alphabetnumofchars encseq) of (h1, bs) \<Rightarrow>
      case alloc h1 (gt_encseq_alphabetnumofchars encseq) of (h2, bf) \<Rightarrow>
      case (if gt_sain_decideforfastmethod env
                 ((gt_encseq_total_length encseq + GT_COMPAREOFFSET env) mod ulong_range)
                 (gt_encseq_total_length encseq)
            then alloc h2 (GT_MULT2 (gt_encseq_alphabetnumofchars encseq))
            else (h2, Null)) of (h3, rt) \<Rightarrow>
      case alloc h3 (gt_encseq_alphabetnumofchars encseq) of (h4, ssf) \<Rightarrow>
      case encseq_bucketsizes env encseq rm bs (gt_encseq_alphabetnumofchars encseq) 0 h4 of
        Inl e \<Rightarrow> Inl e
      | Inr h5 \<Rightarrow>
          Inr (h5, \<lparr>totallength = gt_encseq_total_length encseq,
                    numofchars = gt_encseq_alphabetnumofchars encseq,
                    currentround = 0,
                    bucketsize = bs, bucketfillptr = bf,
                    sstarfirstcharcount = ssf, roundtable = rt,
                    seq = Encseq encseq, readmode = rm,
                    bucketfillptrpoints2suftab = False,
                    bucketsizepoints2suftab = False,
                    roundtablepoints2suftab = False\<rparr>))"

text \<open>\<^verbatim>\<open>for (cptr = plainseq; cptr < plainseq + len; cptr++) bucketsize[*cptr]++\<close>\<close>

function plainseq_bucketsizes ::
  "string \<Rightarrow> nat \<Rightarrow> ptr \<Rightarrow> nat \<Rightarrow> heap \<Rightarrow> error + heap" where
  "plainseq_bucketsizes plainseq len bs i h =
     (if i < len then
        (case nth_opt plainseq i of
           None \<Rightarrow> Inl Out_of_bounds
         | Some c \<Rightarrow>
             (case rd h bs (of_char c) of
                Inl e \<Rightarrow> Inl e
              | Inr v \<Rightarrow>
                  (case wr h bs (of_char c) (v + 1) of
                     Inl e \<Rightarrow> Inl e
                   | Inr h' \<Rightarrow> plainseq_bucketsizes plainseq len bs (i + 1) h')))
      else Inr h)"
  by pat_completeness auto
termination
  by (relation "measure (\<lambda>(plainseq, len, bs, i, h). len - i)") auto

declare plainseq_bucketsizes.simps [simp del]

definition UCHAR_MAX :: nat where
  "UCHAR_MAX = 255"

definition gt_sainseq_new_from_plainseq ::
  "gt_env \<Rightarrow> string \<Rightarrow> nat \<Rightarrow> heap \<Rightarrow> error + (heap \<times> GtSainseq)" where
  "gt_sainseq_new_from_plainseq env plainseq len h0 =
     (case alloc h0 (UCHAR_MAX + 1) of (h1, bs) \<Rightarrow>
      case alloc h1 (UCHAR_MAX + 1) of (h2, bf) \<Rightarrow>
      case (if gt_sain_decideforfastmethod env ((len + 1) mod ulong_range) len
            then alloc h2 (GT_MULT2 (UCHAR_MAX + 1)) else (h2, Null)) of (h3, rt) \<Rightarrow>
      case alloc h3 (UCHAR_MAX + 1) of (h4, ssf) \<Rightarrow>
      case plainseq_bucketsizes plainseq len bs 0 h4 of
        Inl e \<Rightarrow> Inl e
      | Inr h5 \<Rightarrow>
          Inr (h5, \<lparr>totallength = len,
                    numofchars = UCHAR_MAX + 1,
                    currentround = 0,
                    bucketsize = bs, bucketfillptr = bf,
                    sstarfirstcharcount = ssf, roundtable = rt,
                    seq = Plainseq plainseq, readmode = GT_READMODE_FORWARD,
                    bucketfillptrpoints2suftab = False,
                    bucketsizepoints2suftab = False,
                    roundtablepoints2suftab = False\<rparr>))"

text \<open>\<^verbatim>\<open>for (charidx = 0; charidx < numofchars; charidx++) p[charidx] = 0\<close>\<close>

function zero_cells :: "ptr \<Rightarrow> nat \<Rightarrow> nat \<Rightarrow> heap \<Rightarrow> error + heap" where
  "zero_cells p n charidx h =
     (if charidx < n then
        (case wr h p charidx 0 of
           Inl e \<Rightarrow> Inl e
         | Inr h' \<Rightarrow> zero_cells p n (charidx + 1) h')
      else Inr h)"
  by pat_completeness auto
termination
  by (relation "measure (\<lambda>(p, n, charidx, h). n - charidx)") auto

declare zero_cells.simps [simp del]

text \<open>\<^verbatim>\<open>for (cptr = arr; cptr < arr + totallength; cptr++) bucketsize[*cptr]++\<close>\<close>

function array_bucketsizes :: "ptr \<Rightarrow> nat \<Rightarrow> ptr \<Rightarrow> nat \<Rightarrow> heap \<Rightarrow> error + heap" where
  "array_bucketsizes arr len bs i h =
     (if i < len then
        (case rd h arr i of
           Inl e \<Rightarrow> Inl e
         | Inr c \<Rightarrow>
             (case rd h bs c of
                Inl e \<Rightarrow> Inl e
              | Inr v \<Rightarrow>
                  (case wr h bs c (v + 1) of
                     Inl e \<Rightarrow> Inl e
                   | Inr h' \<Rightarrow> array_bucketsizes arr len bs (i + 1) h')))
      else Inr h)"
  by pat_completeness auto
termination
  by (relation "measure (\<lambda>(arr, len, bs, i, h). len - i)") auto

declare array_bucketsizes.simps [simp del]

text \<open>
  Modelled from the spec: \<^verbatim>\<open>gt_assert\<close> is not in the sources; an invariant violation
  aborts the process.  \<open>Assertion_failed n\<close> names the line of the assertion.
\<close>

definition gt_sainseq_new_from_array ::
  "gt_env \<Rightarrow> ptr \<Rightarrow> nat \<Rightarrow> nat \<Rightarrow> ptr \<Rightarrow> nat \<Rightarrow> nat \<Rightarrow> state \<Rightarrow> error + (state \<times> GtSainseq)" where
  "gt_sainseq_new_from_array env arr len nchars suftab firstusable suftabentries st0 =
     (if \<not> firstusable < suftabentries then Inl (Assertion_failed 161) else
      case (if ul_sub suftabentries firstusable \<ge> nchars
            then (st0, ptr_add suftab (ul_sub suftabentries nchars), True)
            else (case alloc (heap st0) nchars of (h, p) \<Rightarrow>
                    (st0\<lparr>heap := h,
                          out := out st0 @ [Ev_bucketsize nchars (ul_sub suftabentries firstusable)]\<rparr>,
                     p, False))) of (st1, bs, bs2suf) \<Rightarrow>
      case (if ul_sub suftabentries firstusable \<ge> GT_MULT2 nchars
            then (st1, ptr_add suftab (ul_sub suftabentries (GT_MULT2 nchars)), True)
            else (case alloc (heap st1) nchars of (h, p) \<Rightarrow> (st1\<lparr>heap := h\<rparr>, p, False)))
        of (st2, bf, bf2suf) \<Rightarrow>
      case (if gt_sain_decideforfastmethod env ((len + 1) mod ulong_range) len then
              (if ul_sub suftabentries firstusable \<ge> GT_MULT4 nchars
               then (st2, ptr_add suftab (ul_sub suftabentries (GT_MULT4 nchars)), True)
               else (case alloc (heap st2) (GT_MULT2 nchars) of (h, p) \<Rightarrow>
                       (st2\<lparr>heap := h\<rparr>, p, False)))
            else (st2, Null, False)) of (st3, rt, rt2suf) \<Rightarrow>
      case zero_cells bs nchars 0 (heap st3) of
        Inl e \<Rightarrow> Inl e
      | Inr h4 \<Rightarrow>
          (case array_bucketsizes arr len bs 0 h4 of
             Inl e \<Rightarrow> Inl e
           | Inr h5 \<Rightarrow>
               Inr (st3\<lparr>heap := h5\<rparr>,
                    \<lparr>totallength = len,
                     numofchars = nchars,
                     currentround = 0,
                     bucketsize = bs, bucketfillptr = bf,
                     sstarfirstcharcount = Null, roundtable = rt,
                     seq = Array arr, readmode = GT_READMODE_FORWARD,
                     bucketfillptrpoints2suftab = bf2suf,
                     bucketsizepoints2suftab = bs2suf,
                     roundtablepoints2suftab = rt2suf\<rparr>)))"

text \<open>
  \<^verbatim>\<open>gt_sainseq_getchar\<close>: a byte of the plain sequence, a cell of the integer
  sequence, or on the encoded sequence the symbol, a special position reading as
  \<^verbatim>\<open>GT_UNIQUEINT(position)\<close>.
\<close>

definition gt_sainseq_getchar :: "gt_env \<Rightarrow> GtSainseq \<Rightarrow> heap \<Rightarrow> nat \<Rightarrow> error + nat" where
  "gt_sainseq_getchar env s h position =
     (case seq s of
        Plainseq plainseq \<Rightarrow>
          (case nth_opt plainseq position of
             None \<Rightarrow> Inl Out_of_bounds
           | Some c \<Rightarrow> Inr (of_char c))
      | Array arr \<Rightarrow> rd h arr position
      | Encseq encseq \<Rightarrow>
          (case gt_encseq_get_encoded_char env encseq position (readmode s) of
             Inl e \<Rightarrow> Inl e
           | Inr None \<Rightarrow> Inr (GT_UNIQUEINT env position)
           | Inr (Some cc) \<Rightarrow> Inr cc))"

text \<open>
  \<^verbatim>\<open>gt_sain_endbuckets\<close> and \<^verbatim>\<open>gt_sain_startbuckets\<close>; the loops run over
  \<open>charidx\<close> from 1 with the running sum \<open>previous\<close>.
\<close>

function endbuckets_loop :: "GtSainseq \<Rightarrow> nat \<Rightarrow> nat \<Rightarrow> heap \<Rightarrow> error + heap" where
  "endbuckets_loop s charidx previous h =
     (if charidx < numofchars s then
        (case rd h (bucketsize s) charidx of
           Inl e \<Rightarrow> Inl e
         | Inr b \<Rightarrow>
             (case wr h (bucketfillptr s) charidx (previous + b) of
                Inl e \<Rightarrow> Inl e
              | Inr h' \<Rightarrow> endbuckets_loop s (charidx + 1) (previous + b) h'))
      else Inr h)"
  by pat_completeness auto
termination
  by (relation "measure (\<lambda>(s, charidx, previous, h). numofchars s - charidx)") auto

declare endbuckets_loop.simps [simp del]

definition gt_sain_endbuckets :: "GtSainseq \<Rightarrow> heap \<Rightarrow> error + heap" where
  "gt_sain_endbuckets s h =
     (case rd h (bucketsize s) 0 of
        Inl e \<Rightarrow> Inl e
      | Inr b0 \<Rightarrow>
          (case wr h (bucketfillptr s) 0 b0 of
             Inl e \<Rightarrow> Inl e
           | Inr h' \<Rightarrow> endbuckets_loop s 1 b0 h'))"

function startbuckets_loop :: "GtSainseq \<Rightarrow> nat \<Rightarrow> nat \<Rightarrow> heap \<Rightarrow> error + heap" where
  "startbuckets_loop s charidx previous h =
     (if charidx < numofchars s then
        (case rd h (bucketsize s) (charidx - 1) of
           Inl e \<Rightarrow> Inl e
         | Inr b \<Rightarrow>
             (case wr h (bucketfillptr s) charidx (previous + b) of
                Inl e \<Rightarrow> Inl e
              | Inr h' \<Rightarrow> startbuckets_loop s (charidx + 1) (previous + b) h'))
      else Inr h)"
  by pat_completeness auto
termination
  by (relation "measure (\<lambda>(s, charidx, previous, h). numofchars s - charidx)") auto

declare startbuckets_loop.simps [simp del]

definition gt_sain_startbuckets :: "GtSainseq \<Rightarrow> heap \<Rightarrow> error + heap" where
  "gt_sain_startbuckets s h =
     (case wr h (bucketfillptr s) 0 0 of
        Inl e \<Rightarrow> Inl e
      | Inr h' \<Rightarrow> startbuckets_loop s 1 0 h')"


section \<open>The write buffer \<^verbatim>\<open>GtSainbuffer\<close>\<close>

text \<open>
  \<^verbatim>\<open>values\<close> is a \<^verbatim>\<open>gt_malloc\<close>ed array of \<open>cachesize\<close> cells, of which only the
  written ones are ever read: it is a partial map from the index to the value written,
  and reading a cell never written is an error.  \<^verbatim>\<open>nextidx\<close> is a \<^verbatim>\<open>gt_calloc\<close>ed
  array of \<open>numofchars\<close> counters.
\<close>

record GtSainbuffer =
  buf_size :: nat
  buf_numofchars :: nat
  cachesize :: nat
  buf_values :: "nat \<rightharpoonup> nat"
  buf_fillptr :: ptr
  buf_suftab :: ptr
  nextidx :: "nat list"
  log_bufsize :: int
  size_buf :: nat

definition UINT16_MAX :: nat where
  "UINT16_MAX = 65535"

text \<open>\<^verbatim>\<open>sizeof (GtSainbuffer)\<close>, \<^verbatim>\<open>sizeof (unsigned long)\<close> and \<^verbatim>\<open>sizeof (uint16_t)\<close>.\<close>

definition sizeof_GtSainbuffer :: nat where
  "sizeof_GtSainbuffer = 72"

definition sizeof_ulong :: nat where
  "sizeof_ulong = 8"

definition sizeof_uint16 :: nat where
  "sizeof_uint16 = 2"

definition gt_sainbuffer_new ::
  "gt_env \<Rightarrow> ptr \<Rightarrow> ptr \<Rightarrow> nat \<Rightarrow> event list \<Rightarrow> error + (GtSainbuffer option \<times> event list)" where
  "gt_sainbuffer_new env suftab fillptr nchars evs =
     (if nchars \<le> UCHAR_MAX + 1 then
        (if \<not> 2 ^ nat (18 - (if sizeof_ulong = 4 then 1 else 2)
                          - int (gt_determinebitspervalue env nchars)) \<le> UINT16_MAX
         then Inl (Assertion_failed 322)
         else
           Inr (Some
             \<lparr>buf_size = 2 ^ nat (18 - (if sizeof_ulong = 4 then 1 else 2)
                                   - int (gt_determinebitspervalue env nchars)),
              buf_numofchars = nchars,
              cachesize = nchars * 2 ^ nat (18 - (if sizeof_ulong = 4 then 1 else 2)
                                              - int (gt_determinebitspervalue env nchars)),
              buf_values = Map.empty,
              buf_fillptr = fillptr,
              buf_suftab = suftab,
              nextidx = replicate nchars 0,
              log_bufsize = 18 - (if sizeof_ulong = 4 then 1 else 2)
                               - int (gt_determinebitspervalue env nchars),
              size_buf = sizeof_GtSainbuffer
                     + sizeof_ulong * (nchars * 2 ^ nat (18 - (if sizeof_ulong = 4 then 1 else 2)
                                              - int (gt_determinebitspervalue env nchars)))
                     + sizeof_uint16 * nchars\<rparr>,
             evs @ [Ev_buffer
                     (sizeof_GtSainbuffer
                      + sizeof_ulong * (nchars * 2 ^ nat (18 - (if sizeof_ulong = 4 then 1 else 2)
                                              - int (gt_determinebitspervalue env nchars)))
                      + sizeof_uint16 * nchars)
                     (2 ^ nat (18 - (if sizeof_ulong = 4 then 1 else 2)
                                  - int (gt_determinebitspervalue env nchars)))]))
      else Inr (None, evs))"

text \<open>
  \<^verbatim>\<open>while (readptr < readend) *(writeptr--) = *(readptr++)\<close>: \<open>r\<close> is the index of
  \<^verbatim>\<open>readptr\<close> in \<^verbatim>\<open>values\<close> and \<open>w\<close> the index of \<^verbatim>\<open>writeptr\<close> in \<^verbatim>\<open>suftab\<close>.
\<close>

function sainbuffer_copy ::
  "GtSainbuffer \<Rightarrow> nat \<Rightarrow> nat \<Rightarrow> nat \<Rightarrow> heap \<Rightarrow> error + heap" where
  "sainbuffer_copy buf r readend w h =
     (if r < readend then
        (if \<not> r < cachesize buf then Inl Out_of_bounds
         else
           (case buf_values buf r of
              None \<Rightarrow> Inl Uninitialised_read
            | Some v \<Rightarrow>
                (case wr h (buf_suftab buf) w v of
                   Inl e \<Rightarrow> Inl e
                 | Inr h' \<Rightarrow> sainbuffer_copy buf (r + 1) readend (ul_sub w 1) h')))
      else Inr h)"
  by pat_completeness auto
termination
  by (relation "measure (\<lambda>(buf, r, readend, w, h). readend - r)") auto

declare sainbuffer_copy.simps [simp del]

definition gt_sainbuffer_update ::
  "GtSainbuffer \<Rightarrow> nat \<Rightarrow> nat \<Rightarrow> heap \<Rightarrow> error + (GtSainbuffer \<times> heap)" where
  "gt_sainbuffer_update buf charidx v h =
     (case nth_opt (nextidx buf) charidx of
        None \<Rightarrow> Inl Out_of_bounds
      | Some nx \<Rightarrow>
          (if \<not> charidx * 2 ^ nat (log_bufsize buf) + nx < cachesize buf then Inl Out_of_bounds
           else
             (if nx < ul_sub (buf_size buf) 1 then
                (case upd_opt (nextidx buf) charidx (nx + 1) of
                   None \<Rightarrow> Inl Out_of_bounds
                 | Some nis \<Rightarrow>
                     Inr (buf\<lparr>buf_values :=
                                (buf_values buf)(charidx * 2 ^ nat (log_bufsize buf) + nx \<mapsto> v),
                              nextidx := nis\<rparr>, h))
              else
                (case rd h (buf_fillptr buf) charidx of
                   Inl e \<Rightarrow> Inl e
                 | Inr fp \<Rightarrow>
                     (case sainbuffer_copy
                             (buf\<lparr>buf_values :=
                                (buf_values buf)(charidx * 2 ^ nat (log_bufsize buf) + nx \<mapsto> v)\<rparr>)
                             (charidx * 2 ^ nat (log_bufsize buf))
                             (charidx * 2 ^ nat (log_bufsize buf) + buf_size buf)
                             (ul_sub fp 1) h of
                        Inl e \<Rightarrow> Inl e
                      | Inr h1 \<Rightarrow>
                          (case upd_opt (nextidx buf) charidx 0 of
                             None \<Rightarrow> Inl Out_of_bounds
                           | Some nis \<Rightarrow>
                               (case wr h1 (buf_fillptr buf) charidx (ul_sub fp (buf_size buf)) of
                                  Inl e \<Rightarrow> Inl e
                                | Inr h2 \<Rightarrow>
                                    Inr (buf\<lparr>buf_values :=
                                          (buf_values buf)
                                            (charidx * 2 ^ nat (log_bufsize buf) + nx \<mapsto> v),
                                             nextidx := nis\<rparr>, h2))))))))"

text \<open>The loop of \<^verbatim>\<open>gt_sainbuffer_flushall\<close> over \<open>charidx\<close>.\<close>

function sainbuffer_flush_loop ::
  "GtSainbuffer \<Rightarrow> nat \<Rightarrow> heap \<Rightarrow> error + (GtSainbuffer \<times> heap)" where
  "sainbuffer_flush_loop buf charidx h =
     (if charidx < buf_numofchars buf then
        (case nth_opt (nextidx buf) charidx of
           None \<Rightarrow> Inl Out_of_bounds
         | Some bufleft \<Rightarrow>
             (if bufleft > 0 then
                (case rd h (buf_fillptr buf) charidx of
                   Inl e \<Rightarrow> Inl e
                 | Inr fp \<Rightarrow>
                     (case sainbuffer_copy buf
                             (charidx * 2 ^ nat (log_bufsize buf))
                             (charidx * 2 ^ nat (log_bufsize buf) + bufleft)
                             (ul_sub fp 1) h of
                        Inl e \<Rightarrow> Inl e
                      | Inr h1 \<Rightarrow>
                          (case upd_opt (nextidx buf) charidx 0 of
                             None \<Rightarrow> Inl Out_of_bounds
                           | Some nis \<Rightarrow>
                               (case wr h1 (buf_fillptr buf) charidx (ul_sub fp bufleft) of
                                  Inl e \<Rightarrow> Inl e
                                | Inr h2 \<Rightarrow>
                                    sainbuffer_flush_loop (buf\<lparr>nextidx := nis\<rparr>)
                                      (charidx + 1) h2))))
              else sainbuffer_flush_loop buf (charidx + 1) h))
      else Inr (buf, h))"
  by pat_completeness auto
termination
  by (relation "measure (\<lambda>(buf, charidx, h). buf_numofchars buf - charidx)") auto

declare sainbuffer_flush_loop.simps [simp del]

definition gt_sainbuffer_flushall :: "GtSainbuffer option \<Rightarrow> heap \<Rightarrow> error + heap" where
  "gt_sainbuffer_flushall sainbuffer h =
     (case sainbuffer of
        None \<Rightarrow> Inr h
      | Some buf \<Rightarrow>
          (case sainbuffer_flush_loop buf 0 h of
             Inl e \<Rightarrow> Inl e
           | Inr (buf', h') \<Rightarrow> Inr h'))"

section \<open>The classification scan \<^verbatim>\<open>gt_saininfo_new\<close>\<close>

text \<open>
  The variables of the scan: the store, the write buffer, \<^verbatim>\<open>countSstartype\<close>,
  \<^verbatim>\<open>nextcc\<close> and \<^verbatim>\<open>nextisStype\<close>.  \<^verbatim>\<open>saininfo->sainseq\<close> is the \<open>sainseq\<close>
  argument itself, so \<^verbatim>\<open>GtSaininfo\<close> is represented by its counter.
\<close>

record scan =
  sc_heap :: heap
  sc_buffer :: "GtSainbuffer option"
  countSstartype :: nat
  nextcc :: nat
  nextisStype :: bool

text \<open>The branch taken when \<^verbatim>\<open>!currentisStype && nextisStype\<close>.\<close>

definition saininfo_seed ::
  "GtSainseq \<Rightarrow> ptr \<Rightarrow> nat \<Rightarrow> scan \<Rightarrow> error + scan" where
  "saininfo_seed s suftab position sc =
     (case (if sstarfirstcharcount s \<noteq> Null then
              (case rd (sc_heap sc) (sstarfirstcharcount s) (nextcc sc) of
                 Inl e \<Rightarrow> Inl e
               | Inr v \<Rightarrow> wr (sc_heap sc) (sstarfirstcharcount s) (nextcc sc) (v + 1))
            else Inr (sc_heap sc)) of
        Inl e \<Rightarrow> Inl e
      | Inr h1 \<Rightarrow>
          (case sc_buffer sc of
             Some buf \<Rightarrow>
               (case gt_sainbuffer_update buf (nextcc sc) position h1 of
                  Inl e \<Rightarrow> Inl e
                | Inr (buf', h2) \<Rightarrow>
                    Inr (sc\<lparr>sc_heap := h2, sc_buffer := Some buf',
                            countSstartype := countSstartype sc + 1\<rparr>))
           | None \<Rightarrow>
               (case rd h1 (bucketfillptr s) (nextcc sc) of
                  Inl e \<Rightarrow> Inl e
                | Inr fp \<Rightarrow>
                    (case wr h1 (bucketfillptr s) (nextcc sc) (ul_sub fp 1) of
                       Inl e \<Rightarrow> Inl e
                     | Inr h2 \<Rightarrow>
                         (case wr h2 suftab (ul_sub fp 1) position of
                            Inl e \<Rightarrow> Inl e
                          | Inr h3 \<Rightarrow>
                              Inr (sc\<lparr>sc_heap := h3,
                                      countSstartype := countSstartype sc + 1\<rparr>))))))"

text \<open>One iteration of the loop, up to the assignments of \<^verbatim>\<open>nextisStype\<close> and \<^verbatim>\<open>nextcc\<close>.\<close>

definition saininfo_step ::
  "gt_env \<Rightarrow> GtSainseq \<Rightarrow> ptr \<Rightarrow> nat \<Rightarrow> scan \<Rightarrow> error + scan" where
  "saininfo_step env s suftab position sc =
     (case gt_sainseq_getchar env s (sc_heap sc) position of
        Inl e \<Rightarrow> Inl e
      | Inr currentcc \<Rightarrow>
          (case (if \<not> (currentcc < nextcc sc \<or> (currentcc = nextcc sc \<and> nextisStype sc))
                    \<and> nextisStype sc
                 then saininfo_seed s suftab position sc else Inr sc) of
             Inl e \<Rightarrow> Inl e
           | Inr sc' \<Rightarrow>
               Inr (sc'\<lparr>nextisStype :=
                          (currentcc < nextcc sc \<or> (currentcc = nextcc sc \<and> nextisStype sc)),
                        nextcc := currentcc\<rparr>)))"

text \<open>\<^verbatim>\<open>for (position = totallength-1; ; position--) { ...; if (position == 0) break; }\<close>\<close>

function saininfo_scan ::
  "gt_env \<Rightarrow> GtSainseq \<Rightarrow> ptr \<Rightarrow> nat \<Rightarrow> scan \<Rightarrow> error + scan" where
  "saininfo_scan env s suftab position sc =
     (case saininfo_step env s suftab position sc of
        Inl e \<Rightarrow> Inl e
      | Inr sc' \<Rightarrow>
          (if position = 0 then Inr sc'
           else saininfo_scan env s suftab (position - 1) sc'))"
  by pat_completeness auto
termination
  by (relation "measure (\<lambda>(env, s, suftab, position, sc). position)") auto

declare saininfo_scan.simps [simp del]

definition gt_saininfo_new ::
  "gt_env \<Rightarrow> GtSainseq \<Rightarrow> ptr \<Rightarrow> state \<Rightarrow> error + (state \<times> nat)" where
  "gt_saininfo_new env s suftab st =
     (case gt_sainbuffer_new env suftab (bucketfillptr s) (numofchars s) (out st) of
        Inl e \<Rightarrow> Inl e
      | Inr (sainbuffer, evs) \<Rightarrow>
          (case gt_sain_endbuckets s (heap st) of
             Inl e \<Rightarrow> Inl e
           | Inr h1 \<Rightarrow>
               (case saininfo_scan env s suftab (ul_sub (totallength s) 1)
                       \<lparr>sc_heap = h1, sc_buffer = sainbuffer, countSstartype = 0,
                        nextcc = GT_UNIQUEINT env (totallength s), nextisStype = True\<rparr> of
                  Inl e \<Rightarrow> Inl e
                | Inr sc \<Rightarrow>
                    (case gt_sainbuffer_flushall (sc_buffer sc) (sc_heap sc) of
                       Inl e \<Rightarrow> Inl e
                     | Inr h2 \<Rightarrow>
                         (if \<not> GT_MULT2 (countSstartype sc) \<le> totallength s
                          then Inl (Assertion_failed 450)
                          else Inr (\<lparr>heap = h2, out = evs\<rparr>, countSstartype sc))))))"


section \<open>Induction before naming\<close>

text \<open>Reading and writing a cell of \<^verbatim>\<open>suftab\<close> through the \<^verbatim>\<open>long *\<close> view.\<close>

definition rd_long :: "heap \<Rightarrow> ptr \<Rightarrow> nat \<Rightarrow> error + int" where
  "rd_long h p i = (case rd h p i of Inl e \<Rightarrow> Inl e | Inr v \<Rightarrow> Inr (s64 v))"

definition wr_long :: "heap \<Rightarrow> ptr \<Rightarrow> nat \<Rightarrow> int \<Rightarrow> error + heap" where
  "wr_long h p i x = wr h p i (u64 x)"

text \<open>The loop of \<^verbatim>\<open>gt_sain_incrementfirstSstar\<close>.\<close>

function incrementfirstSstar_loop ::
  "GtSainseq \<Rightarrow> ptr \<Rightarrow> nat \<Rightarrow> nat \<Rightarrow> heap \<Rightarrow> error + heap" where
  "incrementfirstSstar_loop s suftab charidx sumb h =
     (if charidx < numofchars s then
        (case rd h (bucketsize s) charidx of
           Inl e \<Rightarrow> Inl e
         | Inr b \<Rightarrow>
             (case rd h (bucketfillptr s) charidx of
                Inl e \<Rightarrow> Inl e
              | Inr fp \<Rightarrow>
                  (if \<not> fp \<le> sumb + b then Inl (Assertion_failed 487)
                   else
                     (case (if fp < sumb + b then
                              (case rd h suftab fp of
                                 Inl e \<Rightarrow> Inl e
                               | Inr v \<Rightarrow> wr h suftab fp (v + totallength s))
                            else Inr h) of
                        Inl e \<Rightarrow> Inl e
                      | Inr h1 \<Rightarrow>
                          (case wr h1 (roundtable s) charidx 0 of
                             Inl e \<Rightarrow> Inl e
                           | Inr h2 \<Rightarrow>
                               (case wr h2 (roundtable s) (charidx + numofchars s) 0 of
                                  Inl e \<Rightarrow> Inl e
                                | Inr h3 \<Rightarrow>
                                    incrementfirstSstar_loop s suftab (charidx + 1)
                                      (sumb + b) h3))))))
      else Inr h)"
  by pat_completeness auto
termination
  by (relation "measure (\<lambda>(s, suftab, charidx, sumb, h). numofchars s - charidx)") auto

declare incrementfirstSstar_loop.simps [simp del]

definition gt_sain_incrementfirstSstar :: "GtSainseq \<Rightarrow> ptr \<Rightarrow> heap \<Rightarrow> error + heap" where
  "gt_sain_incrementfirstSstar s suftab h = incrementfirstSstar_loop s suftab 0 0 h"

text \<open>
  The local variables \<^verbatim>\<open>bucketptr\<close> (an index into \<^verbatim>\<open>suftab\<close>, \<open>None\<close> for
  \<^verbatim>\<open>NULL\<close>) and \<^verbatim>\<open>lastupdatecc\<close> of an induction pass, with the store and the
  sequence view, whose \<^verbatim>\<open>currentround\<close> the first passes change.
\<close>

record ind =
  i_heap :: heap
  i_seq :: GtSainseq
  bucketptr :: "nat option"
  lastupdatecc :: nat

text \<open>The macro \<^verbatim>\<open>GT_SAINUPDATEBUCKETPTR(CURRENTCC)\<close>; it leaves \<^verbatim>\<open>bucketptr\<close> set.\<close>

definition GT_SAINUPDATEBUCKETPTR :: "nat \<Rightarrow> ind \<Rightarrow> error + (ind \<times> nat)" where
  "GT_SAINUPDATEBUCKETPTR cc st =
     (case bucketptr st of
        Some bp \<Rightarrow>
          (if cc \<noteq> lastupdatecc st then
             (case wr (i_heap st) (bucketfillptr (i_seq st)) (lastupdatecc st) bp of
                Inl e \<Rightarrow> Inl e
              | Inr h1 \<Rightarrow>
                  (case rd h1 (bucketfillptr (i_seq st)) cc of
                     Inl e \<Rightarrow> Inl e
                   | Inr fp \<Rightarrow>
                       Inr (st\<lparr>i_heap := h1, bucketptr := Some fp, lastupdatecc := cc\<rparr>, fp)))
           else Inr (st, bp))
      | None \<Rightarrow>
          (case rd (i_heap st) (bucketfillptr (i_seq st)) cc of
             Inl e \<Rightarrow> Inl e
           | Inr fp \<Rightarrow> Inr (st\<lparr>bucketptr := Some fp, lastupdatecc := cc\<rparr>, fp)))"

text \<open>
  The round-table step shared by the first passes: with \<open>t\<close> the slot of the
  round table, the position is tagged by adding \<^verbatim>\<open>totallength\<close> when the slot is older
  than the current round.  \<open>line\<close> is the line of the assertion
  \<^verbatim>\<open>roundtable[t] <= currentround\<close> and \<open>extra\<close> its other conjunct.
\<close>

definition roundtable_step ::
  "nat \<Rightarrow> bool \<Rightarrow> nat \<Rightarrow> int \<Rightarrow> ind \<Rightarrow> error + (ind \<times> int)" where
  "roundtable_step line extra t position st =
     (if roundtable (i_seq st) \<noteq> Null then
        (case rd (i_heap st) (roundtable (i_seq st)) t of
           Inl e \<Rightarrow> Inl e
         | Inr r \<Rightarrow>
             (if \<not> (extra \<and> r \<le> currentround (i_seq st)) then Inl (Assertion_failed line)
              else if r < currentround (i_seq st) then
                (case wr (i_heap st) (roundtable (i_seq st)) t (currentround (i_seq st)) of
                   Inl e \<Rightarrow> Inl e
                 | Inr h1 \<Rightarrow> Inr (st\<lparr>i_heap := h1\<rparr>, position + int (totallength (i_seq st))))
              else Inr (st, position)))
      else Inr (st, position))"

text \<open>
  The first statements of the loop bodies of the first passes: a value
  \<^verbatim>\<open>>= totallength\<close> starts a new round and loses its tag.
\<close>

definition untag_round :: "nat \<Rightarrow> int \<Rightarrow> ind \<Rightarrow> error + (ind \<times> int)" where
  "untag_round line position st =
     (if position \<ge> int (totallength (i_seq st)) then
        (if roundtable (i_seq st) = Null then Inl (Assertion_failed line)
         else Inr (st\<lparr>i_seq := (i_seq st)\<lparr>currentround := currentround (i_seq st) + 1\<rparr>\<rparr>,
                   position - int (totallength (i_seq st))))
      else Inr (st, position))"

text \<open>The body of the first loop of \<^verbatim>\<open>gt_sain_induceLtypesuffixes1\<close> at \<^verbatim>\<open>suftabptr = suftab + i\<close>.\<close>

definition induceL1_body :: "gt_env \<Rightarrow> ptr \<Rightarrow> nat \<Rightarrow> ind \<Rightarrow> error + ind" where
  "induceL1_body env suftab i st =
     (case rd_long (i_heap st) suftab i of
        Inl e \<Rightarrow> Inl e
      | Inr position0 \<Rightarrow>
          (if position0 > 0 then
             (case untag_round 531 position0 st of
                Inl e \<Rightarrow> Inl e
              | Inr (st1, position) \<Rightarrow>
                  (case gt_sainseq_getchar env (i_seq st1) (i_heap st1) (u64 position) of
                     Inl e \<Rightarrow> Inl e
                   | Inr currentcc \<Rightarrow>
                       (if currentcc < numofchars (i_seq st1) then
                          (if position > 0 then
                             (case gt_sainseq_getchar env (i_seq st1) (i_heap st1)
                                     (u64 (position - 1)) of
                                Inl e \<Rightarrow> Inl e
                              | Inr leftcontextcc \<Rightarrow>
                                  (case roundtable_step 550 (currentcc > 0)
                                          (2 * currentcc + (if leftcontextcc < currentcc then 1 else 0))
                                          (position - 1) st1 of
                                     Inl e \<Rightarrow> Inl e
                                   | Inr (st2, position') \<Rightarrow>
                                       (case GT_SAINUPDATEBUCKETPTR currentcc st2 of
                                          Inl e \<Rightarrow> Inl e
                                        | Inr (st3, bp) \<Rightarrow>
                                            (if \<not> i < bp then Inl (Assertion_failed 561)
                                             else
                                               (case wr_long (i_heap st3) suftab bp
                                                       (if leftcontextcc < currentcc
                                                        then compl position' else position') of
                                                  Inl e \<Rightarrow> Inl e
                                                | Inr h4 \<Rightarrow>
                                                    (case wr_long h4 suftab i 0 of
                                                       Inl e \<Rightarrow> Inl e
                                                     | Inr h5 \<Rightarrow>
                                                         Inr (st3\<lparr>i_heap := h5,
                                                                  bucketptr := Some (bp + 1)\<rparr>)))))))
                           else Inr st1)
                        else
                          (case wr_long (i_heap st1) suftab i 0 of
                             Inl e \<Rightarrow> Inl e
                           | Inr h1 \<Rightarrow> Inr (st1\<lparr>i_heap := h1\<rparr>)))))
           else if position0 < 0 then
             (case wr_long (i_heap st) suftab i (compl position0) of
                Inl e \<Rightarrow> Inl e
              | Inr h1 \<Rightarrow> Inr (st\<lparr>i_heap := h1\<rparr>))
           else Inr st))"

function induceL1_loop :: "gt_env \<Rightarrow> ptr \<Rightarrow> nat \<Rightarrow> nat \<Rightarrow> ind \<Rightarrow> error + ind" where
  "induceL1_loop env suftab nonspecialentries i st =
     (if i < nonspecialentries then
        (case induceL1_body env suftab i st of
           Inl e \<Rightarrow> Inl e
         | Inr st' \<Rightarrow> induceL1_loop env suftab nonspecialentries (i + 1) st')
      else Inr st)"
  by pat_completeness auto
termination
  by (relation "measure (\<lambda>(env, suftab, nonspecialentries, i, st). nonspecialentries - i)") auto

declare induceL1_loop.simps [simp del]

text \<open>
  The second loop of \<^verbatim>\<open>gt_sain_induceLtypesuffixes1\<close> runs down from the last entry.
  A pointer is represented by its index plus one, so that \<open>0\<close> is the pointer
  \<^verbatim>\<open>suftab - 1\<close>, which the loops compare but must not dereference.
  \<open>nextgteq_search\<close> is the inner \<^verbatim>\<open>while\<close>.
\<close>

function nextgteq_search :: "ptr \<Rightarrow> nat \<Rightarrow> nat \<Rightarrow> heap \<Rightarrow> error + nat" where
  "nextgteq_search suftab n j h =
     (if j > 0 then
        (case rd_long h suftab (j - 1) of
           Inl e \<Rightarrow> Inl e
         | Inr v \<Rightarrow> (if v < int n then nextgteq_search suftab n (j - 1) h else Inr j))
      else Inr j)"
  by pat_completeness auto
termination
  by (relation "measure (\<lambda>(suftab, n, j, h). j)") auto

declare nextgteq_search.simps [simp del]

lemma nextgteq_search_le: "nextgteq_search suftab n j h = Inr j' \<Longrightarrow> j' \<le> j"
proof (induction suftab n j h rule: nextgteq_search.induct)
  case (1 suftab n j h)
  show ?case
  proof (cases "j > 0")
    case False
    with "1.prems" show ?thesis by (simp add: nextgteq_search.simps)
  next
    case True
    show ?thesis
    proof (cases "rd_long h suftab (j - 1)")
      case (Inl e)
      with True "1.prems" show ?thesis by (simp add: nextgteq_search.simps [of _ _ j])
    next
      case (Inr v)
      show ?thesis
      proof (cases "v < int n")
        case True
        with \<open>j > 0\<close> Inr "1.prems" have "nextgteq_search suftab n (j - 1) h = Inr j'"
          by (simp add: nextgteq_search.simps [of _ _ j])
        with "1.IH" [OF \<open>j > 0\<close> Inr True] show ?thesis by simp
      next
        case False
        with \<open>j > 0\<close> Inr "1.prems" show ?thesis
          by (simp add: nextgteq_search.simps [of _ _ j])
      qed
    qed
  qed
qed

function induceL1_retag :: "ptr \<Rightarrow> nat \<Rightarrow> nat \<Rightarrow> heap \<Rightarrow> error + heap" where
  "induceL1_retag suftab n k h =
     (if k > 0 then
        (case rd_long h suftab (k - 1) of
           Inl e \<Rightarrow> Inl e
         | Inr v \<Rightarrow>
             (if v > 0 \<and> v < int n then
                (case wr_long h suftab (k - 1) (v + int n) of
                   Inl e \<Rightarrow> Inl e
                 | Inr h1 \<Rightarrow>
                     (case nextgteq_search suftab n (k - 1) h1 of
                        Inl e \<Rightarrow> Inl e
                      | Inr j \<Rightarrow>
                          (if j = 0 then Inl Out_of_bounds
                           else
                             (case rd_long h1 suftab (j - 1) of
                                Inl e \<Rightarrow> Inl e
                              | Inr w \<Rightarrow>
                                  (case (if w \<ge> int n then wr_long h1 suftab (j - 1) (w - int n)
                                         else Inr h1) of
                                     Inl e \<Rightarrow> Inl e
                                   | Inr h2 \<Rightarrow> induceL1_retag suftab n (j - 1) h2)))))
              else induceL1_retag suftab n (k - 1) h))
      else Inr h)"
  by pat_completeness auto
termination
  by (relation "measure (\<lambda>(suftab, n, k, h). k)")
     (auto dest: nextgteq_search_le)

declare induceL1_retag.simps [simp del]

definition gt_sain_induceLtypesuffixes1 ::
  "gt_env \<Rightarrow> GtSainseq \<Rightarrow> ptr \<Rightarrow> nat \<Rightarrow> heap \<Rightarrow> error + (heap \<times> GtSainseq)" where
  "gt_sain_induceLtypesuffixes1 env s suftab nonspecialentries h =
     (case induceL1_loop env suftab nonspecialentries 0
             \<lparr>i_heap = h, i_seq = s\<lparr>currentround := 0\<rparr>, bucketptr = None, lastupdatecc = 0\<rparr> of
        Inl e \<Rightarrow> Inl e
      | Inr st \<Rightarrow>
          (if roundtable (i_seq st) = Null then Inr (i_heap st, i_seq st)
           else
             (case induceL1_retag suftab (totallength (i_seq st)) nonspecialentries (i_heap st) of
                Inl e \<Rightarrow> Inl e
              | Inr h1 \<Rightarrow> Inr (h1, i_seq st))))"

text \<open>\<^verbatim>\<open>gt_sain_special_singleSinduction1\<close>; \<open>position\<close> is a \<^verbatim>\<open>long\<close>.\<close>

definition gt_sain_special_singleSinduction1 ::
  "gt_env \<Rightarrow> ptr \<Rightarrow> int \<Rightarrow> heap \<times> GtSainseq \<Rightarrow> error + (heap \<times> GtSainseq)" where
  "gt_sain_special_singleSinduction1 env suftab position hs =
     (case gt_sainseq_getchar env (snd hs) (fst hs) (u64 position) of
        Inl e \<Rightarrow> Inl e
      | Inr currentcc \<Rightarrow>
          (if currentcc < numofchars (snd hs) then
             (case rd (fst hs) (bucketfillptr (snd hs)) currentcc of
                Inl e \<Rightarrow> Inl e
              | Inr fp \<Rightarrow>
                  (case wr (fst hs) (bucketfillptr (snd hs)) currentcc (ul_sub fp 1) of
                     Inl e \<Rightarrow> Inl e
                   | Inr h1 \<Rightarrow>
                       (if \<not> position > 0 then Inl (Assertion_failed 620)
                        else
                          (case gt_sainseq_getchar env (snd hs) h1 (u64 (position - 1)) of
                             Inl e \<Rightarrow> Inl e
                           | Inr leftcontextcc \<Rightarrow>
                               (case (if roundtable (snd hs) \<noteq> Null then
                                        (case rd h1 (roundtable (snd hs))
                                                (2 * currentcc
                                                 + (if leftcontextcc > currentcc then 1 else 0)) of
                                           Inl e \<Rightarrow> Inl e
                                         | Inr r \<Rightarrow>
                                             (if \<not> r \<le> currentround (snd hs)
                                              then Inl (Assertion_failed 628)
                                              else if r < currentround (snd hs) then
                                                (case wr h1 (roundtable (snd hs))
                                                        (2 * currentcc
                                                         + (if leftcontextcc > currentcc then 1 else 0))
                                                        (currentround (snd hs)) of
                                                   Inl e \<Rightarrow> Inl e
                                                 | Inr h2 \<Rightarrow>
                                                     Inr (h2, position - 1
                                                              + int (totallength (snd hs))))
                                              else Inr (h1, position - 1
                                                            + int (totallength (snd hs)))))
                                      else Inr (h1, position - 1)) of
                                  Inl e \<Rightarrow> Inl e
                                | Inr (h3, position') \<Rightarrow>
                                    (case wr_long h3 suftab (ul_sub fp 1)
                                            (if leftcontextcc > currentcc
                                             then compl (position' + 1) else position') of
                                       Inl e \<Rightarrow> Inl e
                                     | Inr h4 \<Rightarrow> Inr (h4, snd hs)))))))
           else Inr hs))"

text \<open>
  The \<^verbatim>\<open>while\<close> loop of \<^verbatim>\<open>gt_sain_induceStypes1fromspecialranges\<close> over the ranges
  the iterator yields.
\<close>

fun induceStypes1_ranges ::
  "gt_env \<Rightarrow> ptr \<Rightarrow> (nat \<times> nat) list \<Rightarrow> heap \<times> GtSainseq \<Rightarrow> error + (heap \<times> GtSainseq)" where
  "induceStypes1_ranges env suftab [] hs = Inr hs"
| "induceStypes1_ranges env suftab (rng # ranges) hs =
     (if fst (if GT_ISDIRREVERSE (readmode (snd hs))
              then gt_range_reverse (totallength (snd hs)) rng else rng) > 1
      then
        (case gt_sain_special_singleSinduction1 env suftab
                (int (fst (if GT_ISDIRREVERSE (readmode (snd hs))
                           then gt_range_reverse (totallength (snd hs)) rng else rng)) - 1)
                hs of
           Inl e \<Rightarrow> Inl e
         | Inr hs' \<Rightarrow> induceStypes1_ranges env suftab ranges hs')
      else induceStypes1_ranges env suftab ranges hs)"

definition gt_sain_induceStypes1fromspecialranges ::
  "gt_env \<Rightarrow> gt_encseq \<Rightarrow> ptr \<Rightarrow> heap \<times> GtSainseq \<Rightarrow> error + (heap \<times> GtSainseq)" where
  "gt_sain_induceStypes1fromspecialranges env encseq suftab hs =
     (if gt_encseq_has_specialranges encseq then
        induceStypes1_ranges env suftab
          (gt_specialrangeiterator encseq
             (if GT_ISDIRREVERSE (readmode (snd hs)) then True else False)) hs
      else Inr hs)"

text \<open>The body of the loop of \<^verbatim>\<open>gt_sain_induceStypesuffixes1\<close> at \<^verbatim>\<open>suftabptr = suftab + i\<close>.\<close>

definition induceS1_body :: "gt_env \<Rightarrow> ptr \<Rightarrow> nat \<Rightarrow> ind \<Rightarrow> error + ind" where
  "induceS1_body env suftab i st =
     (case rd_long (i_heap st) suftab i of
        Inl e \<Rightarrow> Inl e
      | Inr position0 \<Rightarrow>
          (if position0 > 0 then
             (case untag_round 703 position0 st of
                Inl e \<Rightarrow> Inl e
              | Inr (st1, position) \<Rightarrow>
                  (case (if position > 0 then
                           (case gt_sainseq_getchar env (i_seq st1) (i_heap st1) (u64 position) of
                              Inl e \<Rightarrow> Inl e
                            | Inr currentcc \<Rightarrow>
                                (if currentcc < numofchars (i_seq st1) then
                                   (case gt_sainseq_getchar env (i_seq st1) (i_heap st1)
                                           (u64 (position - 1)) of
                                      Inl e \<Rightarrow> Inl e
                                    | Inr leftcontextcc \<Rightarrow>
                                        (case roundtable_step 723 True
                                                (2 * currentcc
                                                 + (if leftcontextcc > currentcc then 1 else 0))
                                                (position - 1) st1 of
                                           Inl e \<Rightarrow> Inl e
                                         | Inr (st2, position') \<Rightarrow>
                                             (case GT_SAINUPDATEBUCKETPTR currentcc st2 of
                                                Inl e \<Rightarrow> Inl e
                                              | Inr (st3, bp) \<Rightarrow>
                                                  (if \<not> int bp - 1 < int i
                                                   then Inl (Assertion_failed 731)
                                                   else if bp = 0 then Inl Out_of_bounds
                                                   else
                                                     (case wr_long (i_heap st3) suftab (bp - 1)
                                                             (if leftcontextcc > currentcc
                                                              then compl (position' + 1)
                                                              else position') of
                                                        Inl e \<Rightarrow> Inl e
                                                      | Inr h4 \<Rightarrow>
                                                          Inr (st3\<lparr>i_heap := h4,
                                                                   bucketptr := Some (bp - 1)\<rparr>))))))
                                 else Inr st1))
                         else Inr st1) of
                     Inl e \<Rightarrow> Inl e
                   | Inr st5 \<Rightarrow>
                       (case wr_long (i_heap st5) suftab i 0 of
                          Inl e \<Rightarrow> Inl e
                        | Inr h6 \<Rightarrow> Inr (st5\<lparr>i_heap := h6\<rparr>))))
           else Inr st))"

text \<open>
  \<^verbatim>\<open>for (suftabptr = suftab + nonspecialentries - 1; suftabptr >= suftab; suftabptr--)\<close>
  with \<open>k\<close> the index of \<^verbatim>\<open>suftabptr\<close> plus one.
\<close>

function induceS1_loop :: "gt_env \<Rightarrow> ptr \<Rightarrow> nat \<Rightarrow> ind \<Rightarrow> error + ind" where
  "induceS1_loop env suftab k st =
     (if k > 0 then
        (case induceS1_body env suftab (k - 1) st of
           Inl e \<Rightarrow> Inl e
         | Inr st' \<Rightarrow> induceS1_loop env suftab (k - 1) st')
      else Inr st)"
  by pat_completeness auto
termination
  by (relation "measure (\<lambda>(env, suftab, k, st). k)") auto

declare induceS1_loop.simps [simp del]

definition gt_sain_induceStypesuffixes1 ::
  "gt_env \<Rightarrow> GtSainseq \<Rightarrow> ptr \<Rightarrow> nat \<Rightarrow> heap \<Rightarrow> error + (heap \<times> GtSainseq)" where
  "gt_sain_induceStypesuffixes1 env s suftab nonspecialentries h =
     (case gt_sain_special_singleSinduction1 env suftab (s64 (ul_sub (totallength s) 1)) (h, s) of
        Inl e \<Rightarrow> Inl e
      | Inr hs1 \<Rightarrow>
          (case (case seq s of
                   Encseq encseq \<Rightarrow> gt_sain_induceStypes1fromspecialranges env encseq suftab hs1
                 | Plainseq p \<Rightarrow> Inr hs1
                 | Array a \<Rightarrow> Inr hs1) of
             Inl e \<Rightarrow> Inl e
           | Inr hs2 \<Rightarrow>
               (if nonspecialentries = 0 then Inr hs2
                else
                  (case induceS1_loop env suftab nonspecialentries
                          \<lparr>i_heap = fst hs2, i_seq = snd hs2, bucketptr = None, lastupdatecc = 0\<rparr> of
                     Inl e \<Rightarrow> Inl e
                   | Inr st \<Rightarrow> Inr (i_heap st, i_seq st)))))"


section \<open>Compacting the sorted S*-positions\<close>

text \<open>
  The first loop of \<^verbatim>\<open>gt_sain_moveSstar2front\<close>,
  \<^verbatim>\<open>for (readidx = 0; (position = suftab[readidx]) < 0; readidx++)\<close>; it returns the
  final \<^verbatim>\<open>readidx\<close>.
\<close>

function moveSstar_prefix :: "ptr \<Rightarrow> nat \<Rightarrow> nat \<Rightarrow> heap \<Rightarrow> error + (heap \<times> nat)" where
  "moveSstar_prefix suftab nonspecialentries readidx h =
     (case rd_long h suftab readidx of
        Inl e \<Rightarrow> Inl e
      | Inr position \<Rightarrow>
          (if position < 0 then
             (case wr_long h suftab readidx (compl position) of
                Inl e \<Rightarrow> Inl e
              | Inr h1 \<Rightarrow>
                  (if \<not> readidx + 1 < nonspecialentries then Inl (Assertion_failed 756)
                   else moveSstar_prefix suftab nonspecialentries (readidx + 1) h1))
           else Inr (h, readidx)))"
  by pat_completeness auto
termination
  by (relation "measure (\<lambda>(suftab, nonspecialentries, readidx, h). nonspecialentries - readidx)")
     auto

declare moveSstar_prefix.simps [simp del]

text \<open>The second loop, \<^verbatim>\<open>for (writeidx = readidx, readidx++; ; readidx++)\<close>; it returns \<^verbatim>\<open>writeidx\<close>.\<close>

function moveSstar_rest ::
  "ptr \<Rightarrow> nat \<Rightarrow> nat \<Rightarrow> nat \<Rightarrow> nat \<Rightarrow> heap \<Rightarrow> error + (heap \<times> nat)" where
  "moveSstar_rest suftab nonspecialentries count writeidx readidx h =
     (if \<not> readidx < nonspecialentries then Inl (Assertion_failed 762)
      else
        (case rd_long h suftab readidx of
           Inl e \<Rightarrow> Inl e
         | Inr position \<Rightarrow>
             (if position < 0 then
                (if \<not> writeidx < readidx then Inl (Assertion_failed 766)
                 else
                   (case wr_long h suftab writeidx (compl position) of
                      Inl e \<Rightarrow> Inl e
                    | Inr h1 \<Rightarrow>
                        (case wr_long h1 suftab readidx 0 of
                           Inl e \<Rightarrow> Inl e
                         | Inr h2 \<Rightarrow>
                             (if writeidx + 1 = count then Inr (h2, writeidx + 1)
                              else moveSstar_rest suftab nonspecialentries count
                                     (writeidx + 1) (readidx + 1) h2))))
              else
                (case wr_long h suftab readidx 0 of
                   Inl e \<Rightarrow> Inl e
                 | Inr h1 \<Rightarrow>
                     moveSstar_rest suftab nonspecialentries count writeidx (readidx + 1) h1))))"
  by pat_completeness auto
termination
  by (relation "measure (\<lambda>(suftab, nonspecialentries, count, writeidx, readidx, h).
                           nonspecialentries - readidx)")
     auto

declare moveSstar_rest.simps [simp del]

definition gt_sain_moveSstar2front :: "nat \<Rightarrow> ptr \<Rightarrow> nat \<Rightarrow> heap \<Rightarrow> error + heap" where
  "gt_sain_moveSstar2front count suftab nonspecialentries h =
     (case moveSstar_prefix suftab nonspecialentries 0 h of
        Inl e \<Rightarrow> Inl e
      | Inr (h1, readidx) \<Rightarrow>
          (case (if readidx < count
                 then moveSstar_rest suftab nonspecialentries count readidx (readidx + 1) h1
                 else Inr (h1, readidx)) of
             Inl e \<Rightarrow> Inl e
           | Inr (h2, writeidx) \<Rightarrow>
               (if \<not> writeidx = count then Inl (Assertion_failed 782) else Inr h2)))"

text \<open>
  \<^verbatim>\<open>gt_sain_simple_moveSstar2front\<close>: the same two loops, counting in \<^verbatim>\<open>namecount\<close>
  the compacted values that carry a round tag.
\<close>

function simple_moveSstar_prefix ::
  "ptr \<Rightarrow> nat \<Rightarrow> nat \<Rightarrow> nat \<Rightarrow> nat \<Rightarrow> heap \<Rightarrow> error + (heap \<times> nat \<times> nat)" where
  "simple_moveSstar_prefix suftab n nonspecialentries namecount readidx h =
     (case rd_long h suftab readidx of
        Inl e \<Rightarrow> Inl e
      | Inr position \<Rightarrow>
          (if position < 0 then
             (case wr_long h suftab readidx (compl position) of
                Inl e \<Rightarrow> Inl e
              | Inr h1 \<Rightarrow>
                  (if \<not> readidx + 1 < nonspecialentries then Inl (Assertion_failed 802)
                   else simple_moveSstar_prefix suftab n nonspecialentries
                          (if compl position \<ge> int n then namecount + 1 else namecount)
                          (readidx + 1) h1))
           else Inr (h, readidx, namecount)))"
  by pat_completeness auto
termination
  by (relation "measure (\<lambda>(suftab, n, nonspecialentries, namecount, readidx, h).
                           nonspecialentries - readidx)")
     auto

declare simple_moveSstar_prefix.simps [simp del]

function simple_moveSstar_rest ::
  "ptr \<Rightarrow> nat \<Rightarrow> nat \<Rightarrow> nat \<Rightarrow> nat \<Rightarrow> nat \<Rightarrow> nat \<Rightarrow> heap \<Rightarrow> error + (heap \<times> nat \<times> nat)" where
  "simple_moveSstar_rest suftab n nonspecialentries count namecount writeidx readidx h =
     (if \<not> readidx < nonspecialentries then Inl (Assertion_failed 808)
      else
        (case rd_long h suftab readidx of
           Inl e \<Rightarrow> Inl e
         | Inr position \<Rightarrow>
             (if position < 0 then
                (if \<not> writeidx < readidx then Inl (Assertion_failed 816)
                 else
                   (case wr_long h suftab writeidx (compl position) of
                      Inl e \<Rightarrow> Inl e
                    | Inr h1 \<Rightarrow>
                        (case wr_long h1 suftab readidx 0 of
                           Inl e \<Rightarrow> Inl e
                         | Inr h2 \<Rightarrow>
                             (if writeidx + 1 = count
                              then Inr (h2, writeidx + 1,
                                        if compl position \<ge> int n then namecount + 1
                                        else namecount)
                              else simple_moveSstar_rest suftab n nonspecialentries count
                                     (if compl position \<ge> int n then namecount + 1
                                      else namecount)
                                     (writeidx + 1) (readidx + 1) h2))))
              else
                (case wr_long h suftab readidx 0 of
                   Inl e \<Rightarrow> Inl e
                 | Inr h1 \<Rightarrow>
                     simple_moveSstar_rest suftab n nonspecialentries count namecount
                       writeidx (readidx + 1) h1))))"
  by pat_completeness auto
termination
  by (relation "measure (\<lambda>(suftab, n, nonspecialentries, count, namecount, writeidx, readidx, h).
                           nonspecialentries - readidx)")
     auto

declare simple_moveSstar_rest.simps [simp del]

definition gt_sain_simple_moveSstar2front ::
  "GtSainseq \<Rightarrow> nat \<Rightarrow> ptr \<Rightarrow> nat \<Rightarrow> heap \<Rightarrow> error + (heap \<times> nat)" where
  "gt_sain_simple_moveSstar2front s count suftab nonspecialentries h =
     (if roundtable s = Null then Inl (Assertion_failed 793)
      else
        (case simple_moveSstar_prefix suftab (totallength s) nonspecialentries 0 0 h of
           Inl e \<Rightarrow> Inl e
         | Inr (h1, readidx, namecount) \<Rightarrow>
             (case (if readidx < count
                    then simple_moveSstar_rest suftab (totallength s) nonspecialentries count
                           namecount readidx (readidx + 1) h1
                    else Inr (h1, readidx, namecount)) of
                Inl e \<Rightarrow> Inl e
              | Inr (h2, writeidx, namecount') \<Rightarrow>
                  (if \<not> writeidx = count then Inl (Assertion_failed 832)
                   else Inr (h2, namecount')))))"

text \<open>The two loops of \<^verbatim>\<open>gt_sain_simple_assignSstarnames\<close>.\<close>

function simple_assign_down ::
  "ptr \<Rightarrow> nat \<Rightarrow> nat \<Rightarrow> nat \<Rightarrow> nat \<Rightarrow> nat \<Rightarrow> heap \<Rightarrow> error + heap" where
  "simple_assign_down suftab n count numberofnames currentname k h =
     (if k > 0 then
        (case rd h suftab (k - 1) of
           Inl e \<Rightarrow> Inl e
         | Inr position \<Rightarrow>
             (if position \<ge> n \<and> \<not> currentname > 0 then Inl (Assertion_failed 856)
              else
                (case (if (if position \<ge> n then ul_sub currentname 1 else currentname)
                          \<le> numberofnames
                       then wr h (ptr_add suftab count)
                              (GT_DIV2 (if position \<ge> n then position - n else position))
                              (if position \<ge> n then ul_sub currentname 1 else currentname)
                       else Inr h) of
                   Inl e \<Rightarrow> Inl e
                 | Inr h1 \<Rightarrow>
                     simple_assign_down suftab n count numberofnames
                       (if position \<ge> n then ul_sub currentname 1 else currentname)
                       (k - 1) h1)))
      else Inr h)"
  by pat_completeness auto
termination
  by (relation "measure (\<lambda>(suftab, n, count, numberofnames, currentname, k, h). k)") auto

declare simple_assign_down.simps [simp del]

function simple_assign_untag :: "ptr \<Rightarrow> nat \<Rightarrow> nat \<Rightarrow> nat \<Rightarrow> heap \<Rightarrow> error + heap" where
  "simple_assign_untag suftab n nonspecialentries i h =
     (if i < nonspecialentries then
        (case rd h suftab i of
           Inl e \<Rightarrow> Inl e
         | Inr v \<Rightarrow>
             (case (if v \<ge> n then wr h suftab i (v - n) else Inr h) of
                Inl e \<Rightarrow> Inl e
              | Inr h1 \<Rightarrow> simple_assign_untag suftab n nonspecialentries (i + 1) h1))
      else Inr h)"
  by pat_completeness auto
termination
  by (relation "measure (\<lambda>(suftab, n, nonspecialentries, i, h). nonspecialentries - i)") auto

declare simple_assign_untag.simps [simp del]

definition gt_sain_simple_assignSstarnames ::
  "GtSainseq \<Rightarrow> nat \<Rightarrow> ptr \<Rightarrow> nat \<Rightarrow> nat \<Rightarrow> heap \<Rightarrow> error + heap" where
  "gt_sain_simple_assignSstarnames s count suftab numberofnames nonspecialentries h =
     (if numberofnames < count
      then simple_assign_down suftab (totallength s) count numberofnames (numberofnames + 1)
             nonspecialentries h
      else simple_assign_untag suftab (totallength s) nonspecialentries 0 h)"

section \<open>Induction after naming\<close>

text \<open>The body of the loop of \<^verbatim>\<open>gt_sain_induceLtypesuffixes2\<close>.\<close>

definition induceL2_body :: "gt_env \<Rightarrow> ptr \<Rightarrow> nat \<Rightarrow> ind \<Rightarrow> error + ind" where
  "induceL2_body env suftab i st =
     (case rd_long (i_heap st) suftab i of
        Inl e \<Rightarrow> Inl e
      | Inr position \<Rightarrow>
          (case wr_long (i_heap st) suftab i (compl position) of
             Inl e \<Rightarrow> Inl e
           | Inr h1 \<Rightarrow>
               (if position > 0 then
                  (case gt_sainseq_getchar env (i_seq st) h1 (u64 (position - 1)) of
                     Inl e \<Rightarrow> Inl e
                   | Inr currentcc \<Rightarrow>
                       (if currentcc < numofchars (i_seq st) then
                          (if \<not> currentcc > 0 then Inl (Assertion_failed 897)
                           else
                             (case GT_SAINUPDATEBUCKETPTR currentcc (st\<lparr>i_heap := h1\<rparr>) of
                                Inl e \<Rightarrow> Inl e
                              | Inr (st2, bp) \<Rightarrow>
                                  (if \<not> i < bp then Inl (Assertion_failed 899)
                                   else
                                     (case (if position - 1 > 0 then
                                              (case gt_sainseq_getchar env (i_seq st2) (i_heap st2)
                                                      (u64 (position - 1 - 1)) of
                                                 Inl e \<Rightarrow> Inl e
                                               | Inr lc \<Rightarrow> Inr (lc < currentcc))
                                            else Inr False) of
                                        Inl e \<Rightarrow> Inl e
                                      | Inr tagged \<Rightarrow>
                                          (case wr_long (i_heap st2) suftab bp
                                                  (if tagged then compl (position - 1)
                                                   else position - 1) of
                                             Inl e \<Rightarrow> Inl e
                                           | Inr h3 \<Rightarrow>
                                               Inr (st2\<lparr>i_heap := h3,
                                                        bucketptr := Some (bp + 1)\<rparr>))))))
                        else Inr (st\<lparr>i_heap := h1\<rparr>)))
                else Inr (st\<lparr>i_heap := h1\<rparr>))))"

function induceL2_loop :: "gt_env \<Rightarrow> ptr \<Rightarrow> nat \<Rightarrow> nat \<Rightarrow> ind \<Rightarrow> error + ind" where
  "induceL2_loop env suftab nonspecialentries i st =
     (if i < nonspecialentries then
        (case induceL2_body env suftab i st of
           Inl e \<Rightarrow> Inl e
         | Inr st' \<Rightarrow> induceL2_loop env suftab nonspecialentries (i + 1) st')
      else Inr st)"
  by pat_completeness auto
termination
  by (relation "measure (\<lambda>(env, suftab, nonspecialentries, i, st). nonspecialentries - i)") auto

declare induceL2_loop.simps [simp del]

definition gt_sain_induceLtypesuffixes2 ::
  "gt_env \<Rightarrow> GtSainseq \<Rightarrow> ptr \<Rightarrow> nat \<Rightarrow> heap \<Rightarrow> error + heap" where
  "gt_sain_induceLtypesuffixes2 env s suftab nonspecialentries h =
     (case induceL2_loop env suftab nonspecialentries 0
             \<lparr>i_heap = h, i_seq = s, bucketptr = None, lastupdatecc = 0\<rparr> of
        Inl e \<Rightarrow> Inl e
      | Inr st \<Rightarrow> Inr (i_heap st))"

text \<open>
  The value stored by the second S-pass for \<open>position\<close>:
  \<^verbatim>\<open>(position == 0 || getchar(position-1) > currentcc) ? ~position : position\<close>.
\<close>

definition Stype2_value :: "gt_env \<Rightarrow> GtSainseq \<Rightarrow> heap \<Rightarrow> int \<Rightarrow> nat \<Rightarrow> error + int" where
  "Stype2_value env s h position currentcc =
     (if position = 0 then Inr (compl position)
      else
        (case gt_sainseq_getchar env s h (u64 (position - 1)) of
           Inl e \<Rightarrow> Inl e
         | Inr lc \<Rightarrow> Inr (if lc > currentcc then compl position else position)))"

definition gt_sain_special_singleSinduction2 ::
  "gt_env \<Rightarrow> GtSainseq \<Rightarrow> ptr \<Rightarrow> int \<Rightarrow> nat \<Rightarrow> heap \<Rightarrow> error + heap" where
  "gt_sain_special_singleSinduction2 env s suftab position nonspecialentries h =
     (case gt_sainseq_getchar env s h (u64 (position - 1)) of
        Inl e \<Rightarrow> Inl e
      | Inr currentcc \<Rightarrow>
          (if currentcc < numofchars s then
             (case rd h (bucketfillptr s) currentcc of
                Inl e \<Rightarrow> Inl e
              | Inr fp \<Rightarrow>
                  (case wr h (bucketfillptr s) currentcc (ul_sub fp 1) of
                     Inl e \<Rightarrow> Inl e
                   | Inr h1 \<Rightarrow>
                       (if \<not> ul_sub fp 1 < nonspecialentries then Inl (Assertion_failed 929)
                        else
                          (case Stype2_value env s h1 (position - 1) currentcc of
                             Inl e \<Rightarrow> Inl e
                           | Inr v \<Rightarrow> wr_long h1 suftab (ul_sub fp 1) v))))
           else Inr h))"

fun induceStypes2_ranges ::
  "gt_env \<Rightarrow> GtSainseq \<Rightarrow> ptr \<Rightarrow> nat \<Rightarrow> (nat \<times> nat) list \<Rightarrow> heap \<Rightarrow> error + heap" where
  "induceStypes2_ranges env s suftab nonspecialentries [] h = Inr h"
| "induceStypes2_ranges env s suftab nonspecialentries (rng # ranges) h =
     (if fst (if GT_ISDIRREVERSE (readmode s)
              then gt_range_reverse (totallength s) rng else rng) > 0
      then
        (case gt_sain_special_singleSinduction2 env s suftab
                (int (fst (if GT_ISDIRREVERSE (readmode s)
                           then gt_range_reverse (totallength s) rng else rng)))
                nonspecialentries h of
           Inl e \<Rightarrow> Inl e
         | Inr h' \<Rightarrow> induceStypes2_ranges env s suftab nonspecialentries ranges h')
      else induceStypes2_ranges env s suftab nonspecialentries ranges h)"

definition gt_sain_induceStypes2fromspecialranges ::
  "gt_env \<Rightarrow> GtSainseq \<Rightarrow> gt_encseq \<Rightarrow> ptr \<Rightarrow> nat \<Rightarrow> heap \<Rightarrow> error + heap" where
  "gt_sain_induceStypes2fromspecialranges env s encseq suftab nonspecialentries h =
     (if gt_encseq_has_specialranges encseq then
        induceStypes2_ranges env s suftab nonspecialentries
          (gt_specialrangeiterator encseq (if GT_ISDIRREVERSE (readmode s) then True else False)) h
      else Inr h)"

definition induceS2_body :: "gt_env \<Rightarrow> ptr \<Rightarrow> nat \<Rightarrow> ind \<Rightarrow> error + ind" where
  "induceS2_body env suftab i st =
     (case rd_long (i_heap st) suftab i of
        Inl e \<Rightarrow> Inl e
      | Inr position \<Rightarrow>
          (if position > 0 then
             (case gt_sainseq_getchar env (i_seq st) (i_heap st) (u64 (position - 1)) of
                Inl e \<Rightarrow> Inl e
              | Inr currentcc \<Rightarrow>
                  (if currentcc < numofchars (i_seq st) then
                     (case GT_SAINUPDATEBUCKETPTR currentcc st of
                        Inl e \<Rightarrow> Inl e
                      | Inr (st2, bp) \<Rightarrow>
                          (if \<not> int bp - 1 < int i then Inl (Assertion_failed 1008)
                           else if bp = 0 then Inl Out_of_bounds
                           else
                             (case Stype2_value env (i_seq st2) (i_heap st2) (position - 1)
                                     currentcc of
                                Inl e \<Rightarrow> Inl e
                              | Inr v \<Rightarrow>
                                  (case wr_long (i_heap st2) suftab (bp - 1) v of
                                     Inl e \<Rightarrow> Inl e
                                   | Inr h3 \<Rightarrow>
                                       Inr (st2\<lparr>i_heap := h3, bucketptr := Some (bp - 1)\<rparr>)))))
                   else Inr st))
           else
             (case wr_long (i_heap st) suftab i (compl position) of
                Inl e \<Rightarrow> Inl e
              | Inr h1 \<Rightarrow> Inr (st\<lparr>i_heap := h1\<rparr>))))"

function induceS2_loop :: "gt_env \<Rightarrow> ptr \<Rightarrow> nat \<Rightarrow> ind \<Rightarrow> error + ind" where
  "induceS2_loop env suftab k st =
     (if k > 0 then
        (case induceS2_body env suftab (k - 1) st of
           Inl e \<Rightarrow> Inl e
         | Inr st' \<Rightarrow> induceS2_loop env suftab (k - 1) st')
      else Inr st)"
  by pat_completeness auto
termination
  by (relation "measure (\<lambda>(env, suftab, k, st). k)") auto

declare induceS2_loop.simps [simp del]

definition gt_sain_induceStypesuffixes2 ::
  "gt_env \<Rightarrow> GtSainseq \<Rightarrow> ptr \<Rightarrow> nat \<Rightarrow> heap \<Rightarrow> error + heap" where
  "gt_sain_induceStypesuffixes2 env s suftab nonspecialentries h =
     (case gt_sain_special_singleSinduction2 env s suftab (int (totallength s))
             nonspecialentries h of
        Inl e \<Rightarrow> Inl e
      | Inr h1 \<Rightarrow>
          (case (case seq s of
                   Encseq encseq \<Rightarrow>
                     gt_sain_induceStypes2fromspecialranges env s encseq suftab
                       nonspecialentries h1
                 | Plainseq p \<Rightarrow> Inr h1
                 | Array a \<Rightarrow> Inr h1) of
             Inl e \<Rightarrow> Inl e
           | Inr h2 \<Rightarrow>
               (if nonspecialentries = 0 then Inr h2
                else
                  (case induceS2_loop env suftab nonspecialentries
                          \<lparr>i_heap = h2, i_seq = s, bucketptr = None, lastupdatecc = 0\<rparr> of
                     Inl e \<Rightarrow> Inl e
                   | Inr st \<Rightarrow> Inr (i_heap st)))))"


section \<open>Comparing suffixes and naming\<close>

text \<open>The number of positions of the sequence that can be read at all.\<close>

definition seq_limit :: "GtSainseq \<Rightarrow> heap \<Rightarrow> nat" where
  "seq_limit s h =
     (case seq s of
        Plainseq plainseq \<Rightarrow> length plainseq
      | Encseq encseq \<Rightarrow> gt_encseq_total_length encseq
      | Array Null \<Rightarrow> 0
      | Array (Ptr b off) \<Rightarrow> (case nth_opt h b of None \<Rightarrow> 0 | Some blk \<Rightarrow> length blk - off))"

lemma nth_opt_Some_less: "nth_opt xs i = Some v \<Longrightarrow> i < length xs"
proof (induction xs arbitrary: i)
  case Nil
  then show ?case by simp
next
  case (Cons x xs)
  then show ?case by (cases i) (auto split: if_splits)
qed

lemma getchar_less_limit:
  assumes "gt_sainseq_getchar env s h i = Inr c"
  shows "i < seq_limit s h"
proof (cases "seq s")
  case (Plainseq plainseq)
  with assms show ?thesis
    by (auto simp: gt_sainseq_getchar_def seq_limit_def split: option.splits
             dest: nth_opt_Some_less)
next
  case (Encseq encseq)
  with assms show ?thesis
    by (auto simp: gt_sainseq_getchar_def seq_limit_def gt_encseq_get_encoded_char_def
             split: if_splits sum.splits option.splits)
next
  case (Array a)
  show ?thesis
  proof (cases a)
    case Null
    with Array assms show ?thesis by (simp add: gt_sainseq_getchar_def)
  next
    case (Ptr b off)
    with Array assms obtain blk where "nth_opt h b = Some blk" "nth_opt blk (off + i) = Some c"
      by (auto simp: gt_sainseq_getchar_def split: option.splits)
    moreover from this have "off + i < length blk"
      by (auto dest: nth_opt_Some_less)
    then have "i < length blk - off" by arith
    ultimately show ?thesis
      using Array Ptr by (simp add: seq_limit_def)
  qed
qed

text \<open>The \<^verbatim>\<open>while\<close> loop of \<^verbatim>\<open>gt_sain_compare_Sstarstrings\<close>.\<close>

function compare_Sstarstrings_loop ::
  "gt_env \<Rightarrow> GtSainseq \<Rightarrow> heap \<Rightarrow> nat \<Rightarrow> nat \<Rightarrow> nat \<Rightarrow> error + int" where
  "compare_Sstarstrings_loop env s h end1 start1 start2 =
     (if start1 < end1 then
        (if start1 = totallength s then
           (if \<not> start1 > start2 then Inl (Assertion_failed 1044) else Inr 1)
         else if start2 = totallength s then
           (if \<not> start1 < start2 then Inl (Assertion_failed 1049) else Inr (- 1))
         else
           (case gt_sainseq_getchar env s h start1 of
              Inl e \<Rightarrow> Inl e
            | Inr cc1 \<Rightarrow>
                (case gt_sainseq_getchar env s h start2 of
                   Inl e \<Rightarrow> Inl e
                 | Inr cc2 \<Rightarrow>
                     (if cc1 < cc2 then Inr (- 1)
                      else if cc1 > cc2 then Inr 1
                      else compare_Sstarstrings_loop env s h end1 (start1 + 1) (start2 + 1)))))
      else Inr 0)"
  by pat_completeness auto
termination
  by (relation "measure (\<lambda>(env, s, h, end1, start1, start2). end1 - start1)") auto

declare compare_Sstarstrings_loop.simps [simp del]

definition gt_sain_compare_Sstarstrings ::
  "gt_env \<Rightarrow> GtSainseq \<Rightarrow> heap \<Rightarrow> nat \<Rightarrow> nat \<Rightarrow> nat \<Rightarrow> error + int" where
  "gt_sain_compare_Sstarstrings env s h start1 start2 len =
     (if \<not> (start1 \<le> totallength s \<and> start2 \<le> totallength s \<and> start1 \<noteq> start2)
      then Inl (Assertion_failed 1034)
      else compare_Sstarstrings_loop env s h (start1 + len) start1 start2)"

text \<open>The \<^verbatim>\<open>while (true)\<close> loop of \<^verbatim>\<open>gt_sain_compare_suffixes\<close>.\<close>

function compare_suffixes_loop ::
  "gt_env \<Rightarrow> GtSainseq \<Rightarrow> heap \<Rightarrow> nat \<Rightarrow> nat \<Rightarrow> error + int" where
  "compare_suffixes_loop env s h start1 start2 =
     (if start1 = totallength s then
        (if \<not> start1 > start2 then Inl (Assertion_failed 1082) else Inr 1)
      else if start2 = totallength s then
        (if \<not> start1 < start2 then Inl (Assertion_failed 1087) else Inr (- 1))
      else
        (case gt_sainseq_getchar env s h start1 of
           Inl e \<Rightarrow> Inl e
         | Inr cc1 \<Rightarrow>
             (case gt_sainseq_getchar env s h start2 of
                Inl e \<Rightarrow> Inl e
              | Inr cc2 \<Rightarrow>
                  (if cc1 < cc2 then Inr (- 1)
                   else if cc1 > cc2 then Inr 1
                   else compare_suffixes_loop env s h (start1 + 1) (start2 + 1)))))"
  by pat_completeness auto
termination
  by (relation "measure (\<lambda>(env, s, h, start1, start2). seq_limit s h - start1)")
     (auto dest: getchar_less_limit)

declare compare_suffixes_loop.simps [simp del]

definition gt_sain_compare_suffixes ::
  "gt_env \<Rightarrow> GtSainseq \<Rightarrow> heap \<Rightarrow> nat \<Rightarrow> nat \<Rightarrow> error + int" where
  "gt_sain_compare_suffixes env s h start1 start2 =
     (if \<not> (start1 \<le> totallength s \<and> start2 \<le> totallength s \<and> start1 \<noteq> start2)
      then Inl (Assertion_failed 1072)
      else compare_suffixes_loop env s h start1 start2)"

text \<open>\<^verbatim>\<open>gt_sain_setundefined\<close>: the forward loop over the index, the backward loop over the index plus one.\<close>

function setundefined_fwd :: "ptr \<Rightarrow> nat \<Rightarrow> nat \<Rightarrow> heap \<Rightarrow> error + heap" where
  "setundefined_fwd suftab i end_idx h =
     (if i \<le> end_idx then
        (case wr h suftab i 0 of
           Inl e \<Rightarrow> Inl e
         | Inr h' \<Rightarrow> setundefined_fwd suftab (i + 1) end_idx h')
      else Inr h)"
  by pat_completeness auto
termination
  by (relation "measure (\<lambda>(suftab, i, end_idx, h). end_idx + 1 - i)") auto

declare setundefined_fwd.simps [simp del]

function setundefined_bwd :: "ptr \<Rightarrow> nat \<Rightarrow> nat \<Rightarrow> heap \<Rightarrow> error + heap" where
  "setundefined_bwd suftab start k h =
     (if k > start then
        (case wr h suftab (k - 1) 0 of
           Inl e \<Rightarrow> Inl e
         | Inr h' \<Rightarrow> setundefined_bwd suftab start (k - 1) h')
      else Inr h)"
  by pat_completeness auto
termination
  by (relation "measure (\<lambda>(suftab, start, k, h). k)") auto

declare setundefined_bwd.simps [simp del]

definition gt_sain_setundefined :: "bool \<Rightarrow> ptr \<Rightarrow> nat \<Rightarrow> nat \<Rightarrow> heap \<Rightarrow> error + heap" where
  "gt_sain_setundefined fwd suftab start end_idx h =
     (if fwd then setundefined_fwd suftab start end_idx h
      else setundefined_bwd suftab start (end_idx + 1) h)"

text \<open>The variables of the scan of \<^verbatim>\<open>gt_sain_assignSstarlength\<close>.\<close>

record lenscan =
  len_heap :: heap
  nextSstartypepos :: nat
  len_nextcc :: nat
  len_nextisStype :: bool

function assignSstarlength_scan ::
  "gt_env \<Rightarrow> GtSainseq \<Rightarrow> ptr \<Rightarrow> nat \<Rightarrow> lenscan \<Rightarrow> error + lenscan" where
  "assignSstarlength_scan env s lentab position sc =
     (case gt_sainseq_getchar env s (len_heap sc) position of
        Inl e \<Rightarrow> Inl e
      | Inr currentcc \<Rightarrow>
          (case (if \<not> (currentcc < len_nextcc sc
                       \<or> (currentcc = len_nextcc sc \<and> len_nextisStype sc))
                    \<and> len_nextisStype sc
                 then
                   (if \<not> position < nextSstartypepos sc then Inl (Assertion_failed 1140)
                    else
                      (case wr (len_heap sc) lentab (GT_DIV2 (position + 1))
                              (ul_sub (nextSstartypepos sc) position) of
                         Inl e \<Rightarrow> Inl e
                       | Inr h1 \<Rightarrow> Inr (sc\<lparr>len_heap := h1, nextSstartypepos := position + 1\<rparr>)))
                 else Inr sc) of
             Inl e \<Rightarrow> Inl e
           | Inr sc' \<Rightarrow>
               (if position = 0
                then Inr (sc'\<lparr>len_nextisStype :=
                                (currentcc < len_nextcc sc
                                 \<or> (currentcc = len_nextcc sc \<and> len_nextisStype sc)),
                              len_nextcc := currentcc\<rparr>)
                else assignSstarlength_scan env s lentab (position - 1)
                       (sc'\<lparr>len_nextisStype :=
                              (currentcc < len_nextcc sc
                               \<or> (currentcc = len_nextcc sc \<and> len_nextisStype sc)),
                            len_nextcc := currentcc\<rparr>))))"
  by pat_completeness auto
termination
  by (relation "measure (\<lambda>(env, s, lentab, position, sc). position)") auto

declare assignSstarlength_scan.simps [simp del]

definition gt_sain_assignSstarlength ::
  "gt_env \<Rightarrow> GtSainseq \<Rightarrow> ptr \<Rightarrow> heap \<Rightarrow> error + heap" where
  "gt_sain_assignSstarlength env s lentab h =
     (case assignSstarlength_scan env s lentab (ul_sub (totallength s) 1)
             \<lparr>len_heap = h, nextSstartypepos = totallength s,
              len_nextcc = GT_UNIQUEINT env (totallength s), len_nextisStype = True\<rparr> of
        Inl e \<Rightarrow> Inl e
      | Inr sc \<Rightarrow> Inr (len_heap sc))"

text \<open>
  The loop of \<^verbatim>\<open>gt_sain_assignSstarnames\<close> over \<^verbatim>\<open>suftabptr = suftab + i\<close>, with the
  variables \<^verbatim>\<open>previouspos\<close>, \<^verbatim>\<open>previouslen\<close> and \<^verbatim>\<open>currentname\<close>.
\<close>

function assignSstarnames_loop ::
  "gt_env \<Rightarrow> GtSainseq \<Rightarrow> ptr \<Rightarrow> nat \<Rightarrow> nat \<Rightarrow> nat \<Rightarrow> nat \<Rightarrow> nat \<Rightarrow> heap
   \<Rightarrow> error + (heap \<times> nat)" where
  "assignSstarnames_loop env s suftab count i previouspos previouslen currentname h =
     (if i < count then
        (case rd h suftab i of
           Inl e \<Rightarrow> Inl e
         | Inr position \<Rightarrow>
             (case rd h (ptr_add suftab count) (GT_DIV2 position) of
                Inl e \<Rightarrow> Inl e
              | Inr currentlen \<Rightarrow>
                  (case (if previouslen = currentlen then
                           (case gt_sain_compare_Sstarstrings env s h previouspos position
                                   currentlen of
                              Inl e \<Rightarrow> Inl e
                            | Inr c \<Rightarrow> (if \<not> c \<noteq> 1 then Inl (Assertion_failed 1173) else Inr c))
                         else Inr (- 1)) of
                     Inl e \<Rightarrow> Inl e
                   | Inr cmp \<Rightarrow>
                       (case wr h (ptr_add suftab count) (GT_DIV2 position)
                               (if cmp = - 1 then currentname + 1 else currentname) of
                          Inl e \<Rightarrow> Inl e
                        | Inr h1 \<Rightarrow>
                            assignSstarnames_loop env s suftab count (i + 1) position currentlen
                              (if cmp = - 1 then currentname + 1 else currentname) h1))))
      else Inr (h, currentname))"
  by pat_completeness auto
termination
  by (relation "measure (\<lambda>(env, s, suftab, count, i, previouspos, previouslen, currentname, h).
                           count - i)")
     auto

declare assignSstarnames_loop.simps [simp del]

definition gt_sain_assignSstarnames ::
  "gt_env \<Rightarrow> GtSainseq \<Rightarrow> nat \<Rightarrow> ptr \<Rightarrow> heap \<Rightarrow> error + (heap \<times> nat)" where
  "gt_sain_assignSstarnames env s count suftab h =
     (case rd h suftab 0 of
        Inl e \<Rightarrow> Inl e
      | Inr previouspos \<Rightarrow>
          (case rd h (ptr_add suftab count) (GT_DIV2 previouspos) of
             Inl e \<Rightarrow> Inl e
           | Inr previouslen \<Rightarrow>
               (case wr h (ptr_add suftab count) (GT_DIV2 previouspos) 1 of
                  Inl e \<Rightarrow> Inl e
                | Inr h1 \<Rightarrow>
                    assignSstarnames_loop env s suftab count 1 previouspos previouslen 1 h1)))"

text \<open>
  The loop of \<^verbatim>\<open>gt_sain_movenames2front\<close>,
  \<^verbatim>\<open>for (rptr = wptr = suftab + numberofsuffixes; rptr <= maxrptr; rptr++)\<close>.
\<close>

function movenames2front_loop ::
  "ptr \<Rightarrow> nat \<Rightarrow> nat \<Rightarrow> nat \<Rightarrow> heap \<Rightarrow> error + (heap \<times> nat)" where
  "movenames2front_loop suftab maxrptr rptr wptr h =
     (if rptr \<le> maxrptr then
        (case rd h suftab rptr of
           Inl e \<Rightarrow> Inl e
         | Inr position \<Rightarrow>
             (if position > 0 then
                (case wr h suftab wptr (position - 1) of
                   Inl e \<Rightarrow> Inl e
                 | Inr h1 \<Rightarrow> movenames2front_loop suftab maxrptr (rptr + 1) (wptr + 1) h1)
              else movenames2front_loop suftab maxrptr (rptr + 1) wptr h))
      else Inr (h, wptr))"
  by pat_completeness auto
termination
  by (relation "measure (\<lambda>(suftab, maxrptr, rptr, wptr, h). maxrptr + 1 - rptr)") auto

declare movenames2front_loop.simps [simp del]

definition gt_sain_movenames2front :: "ptr \<Rightarrow> nat \<Rightarrow> nat \<Rightarrow> heap \<Rightarrow> error + heap" where
  "gt_sain_movenames2front suftab numberofsuffixes n h =
     (case movenames2front_loop suftab (numberofsuffixes + GT_DIV2 n)
             numberofsuffixes numberofsuffixes h of
        Inl e \<Rightarrow> Inl e
      | Inr (h1, wptr) \<Rightarrow>
          (if \<not> wptr = GT_MULT2 numberofsuffixes then Inl (Assertion_failed 1212)
           else Inr h1))"

text \<open>
  \<^verbatim>\<open>gt_sain_checkorder\<close>; a violation prints to \<^verbatim>\<open>stderr\<close> and exits, which is the
  error \<open>Order_violation idx\<close>.
\<close>

function checkorder_loop ::
  "gt_env \<Rightarrow> GtSainseq \<Rightarrow> ptr \<Rightarrow> nat \<Rightarrow> nat \<Rightarrow> heap \<Rightarrow> error + unit" where
  "checkorder_loop env s suftab end_idx idx h =
     (if idx \<le> end_idx then
        (case rd h suftab (idx - 1) of
           Inl e \<Rightarrow> Inl e
         | Inr a \<Rightarrow>
             (case rd h suftab idx of
                Inl e \<Rightarrow> Inl e
              | Inr b \<Rightarrow>
                  (case gt_sain_compare_suffixes env s h a b of
                     Inl e \<Rightarrow> Inl e
                   | Inr cmp \<Rightarrow>
                       (if cmp \<noteq> - 1 then Inl (Order_violation idx)
                        else checkorder_loop env s suftab end_idx (idx + 1) h))))
      else Inr ())"
  by pat_completeness auto
termination
  by (relation "measure (\<lambda>(env, s, suftab, end_idx, idx, h). end_idx + 1 - idx)") auto

declare checkorder_loop.simps [simp del]

definition gt_sain_checkorder ::
  "gt_env \<Rightarrow> GtSainseq \<Rightarrow> ptr \<Rightarrow> nat \<Rightarrow> nat \<Rightarrow> heap \<Rightarrow> error + unit" where
  "gt_sain_checkorder env s suftab start end_idx h =
     checkorder_loop env s suftab end_idx (start + 1) h"


section \<open>Expanding the order, inserting the sorted S*-suffixes, filling the tail\<close>

text \<open>\<^verbatim>\<open>for (charidx...) { sstarfirstcharcount[charidx] = 0; bucketsize[charidx] = 0; }\<close>\<close>

function zero_both :: "ptr \<Rightarrow> ptr \<Rightarrow> nat \<Rightarrow> nat \<Rightarrow> heap \<Rightarrow> error + heap" where
  "zero_both ssf bs n charidx h =
     (if charidx < n then
        (case wr h ssf charidx 0 of
           Inl e \<Rightarrow> Inl e
         | Inr h1 \<Rightarrow>
             (case wr h1 bs charidx 0 of
                Inl e \<Rightarrow> Inl e
              | Inr h2 \<Rightarrow> zero_both ssf bs n (charidx + 1) h2))
      else Inr h)"
  by pat_completeness auto
termination
  by (relation "measure (\<lambda>(ssf, bs, n, charidx, h). n - charidx)") auto

declare zero_both.simps [simp del]

text \<open>
  The variables of the scan of \<^verbatim>\<open>gt_sain_expandorder2original\<close>; \<open>ssf\<close> and
  \<open>bs\<close> are its local pointers \<^verbatim>\<open>sstarfirstcharcount\<close> and \<^verbatim>\<open>bucketsize\<close>.
\<close>

record expscan =
  exp_heap :: heap
  writeidx :: nat
  exp_nextcc :: nat
  exp_nextisStype :: bool

function expandorder_scan ::
  "gt_env \<Rightarrow> GtSainseq \<Rightarrow> ptr \<Rightarrow> ptr \<Rightarrow> ptr \<Rightarrow> nat \<Rightarrow> expscan \<Rightarrow> error + expscan" where
  "expandorder_scan env s ssf bs sstarsuffixes position sc =
     (case gt_sainseq_getchar env s (exp_heap sc) position of
        Inl e \<Rightarrow> Inl e
      | Inr currentcc \<Rightarrow>
          (case (if \<not> (currentcc < exp_nextcc sc
                       \<or> (currentcc = exp_nextcc sc \<and> exp_nextisStype sc))
                    \<and> exp_nextisStype sc
                 then
                   (case (if ssf \<noteq> Null then
                            (case rd (exp_heap sc) ssf (exp_nextcc sc) of
                               Inl e \<Rightarrow> Inl e
                             | Inr v \<Rightarrow> wr (exp_heap sc) ssf (exp_nextcc sc) (v + 1))
                          else Inr (exp_heap sc)) of
                      Inl e \<Rightarrow> Inl e
                    | Inr h1 \<Rightarrow>
                        (case wr h1 sstarsuffixes (writeidx sc) (position + 1) of
                           Inl e \<Rightarrow> Inl e
                         | Inr h2 \<Rightarrow>
                             Inr (sc\<lparr>exp_heap := h2, writeidx := ul_sub (writeidx sc) 1\<rparr>)))
                 else Inr sc) of
             Inl e \<Rightarrow> Inl e
           | Inr sc1 \<Rightarrow>
               (case (if bs \<noteq> Null then
                        (case rd (exp_heap sc1) bs currentcc of
                           Inl e \<Rightarrow> Inl e
                         | Inr v \<Rightarrow> wr (exp_heap sc1) bs currentcc (v + 1))
                      else Inr (exp_heap sc1)) of
                  Inl e \<Rightarrow> Inl e
                | Inr h3 \<Rightarrow>
                    (if position = 0
                     then Inr (sc1\<lparr>exp_heap := h3,
                                  exp_nextisStype :=
                                    (currentcc < exp_nextcc sc
                                     \<or> (currentcc = exp_nextcc sc \<and> exp_nextisStype sc)),
                                  exp_nextcc := currentcc\<rparr>)
                     else expandorder_scan env s ssf bs sstarsuffixes (position - 1)
                            (sc1\<lparr>exp_heap := h3,
                                 exp_nextisStype :=
                                   (currentcc < exp_nextcc sc
                                    \<or> (currentcc = exp_nextcc sc \<and> exp_nextisStype sc)),
                                 exp_nextcc := currentcc\<rparr>)))))"
  by pat_completeness auto
termination
  by (relation "measure (\<lambda>(env, s, ssf, bs, sstarsuffixes, position, sc). position)") auto

declare expandorder_scan.simps [simp del]

text \<open>\<^verbatim>\<open>for (suftabptr...) *suftabptr = sstarsuffixes[*suftabptr]\<close>\<close>

function expandorder_map :: "ptr \<Rightarrow> ptr \<Rightarrow> nat \<Rightarrow> nat \<Rightarrow> heap \<Rightarrow> error + heap" where
  "expandorder_map suftab sstarsuffixes numberofsuffixes i h =
     (if i < numberofsuffixes then
        (case rd h suftab i of
           Inl e \<Rightarrow> Inl e
         | Inr v \<Rightarrow>
             (case rd h sstarsuffixes v of
                Inl e \<Rightarrow> Inl e
              | Inr w \<Rightarrow>
                  (case wr h suftab i w of
                     Inl e \<Rightarrow> Inl e
                   | Inr h1 \<Rightarrow> expandorder_map suftab sstarsuffixes numberofsuffixes (i + 1) h1)))
      else Inr h)"
  by pat_completeness auto
termination
  by (relation "measure (\<lambda>(suftab, sstarsuffixes, numberofsuffixes, i, h). numberofsuffixes - i)")
     auto

declare expandorder_map.simps [simp del]

definition gt_sain_expandorder2original ::
  "gt_env \<Rightarrow> GtSainseq \<Rightarrow> nat \<Rightarrow> ptr \<Rightarrow> heap \<Rightarrow> error + (heap \<times> GtSainseq)" where
  "gt_sain_expandorder2original env s numberofsuffixes suftab h =
     (case (if seqtype s = GT_SAIN_INTSEQ then
              (if sstarfirstcharcount s \<noteq> Null then Inl (Assertion_failed 1252)
               else
                 (case zero_both (bucketfillptr s) (bucketsize s) (numofchars s) 0 h of
                    Inl e \<Rightarrow> Inl e
                  | Inr h1 \<Rightarrow>
                      Inr (h1, s\<lparr>sstarfirstcharcount := bucketfillptr s\<rparr>,
                           bucketfillptr s, bucketsize s)))
            else Inr (h, s, Null, Null)) of
        Inl e \<Rightarrow> Inl e
      | Inr (h1, s1, ssf, bs) \<Rightarrow>
          (case expandorder_scan env s1 ssf bs (ptr_add suftab numberofsuffixes)
                  (ul_sub (totallength s1) 1)
                  \<lparr>exp_heap = h1, writeidx = ul_sub numberofsuffixes 1,
                   exp_nextcc = GT_UNIQUEINT env (totallength s1), exp_nextisStype = True\<rparr> of
             Inl e \<Rightarrow> Inl e
           | Inr sc \<Rightarrow>
               (case expandorder_map suftab (ptr_add suftab numberofsuffixes) numberofsuffixes 0
                       (exp_heap sc) of
                  Inl e \<Rightarrow> Inl e
                | Inr h2 \<Rightarrow> Inr (h2, s1))))"

text \<open>
  The loop of \<^verbatim>\<open>gt_sain_determineSstarfirstchardist\<close> over \<^verbatim>\<open>seqptr\<close>, with \<open>k\<close>
  its index in the array plus one.
\<close>

function determine_loop :: "GtSainseq \<Rightarrow> ptr \<Rightarrow> nat \<Rightarrow> nat \<Rightarrow> bool \<Rightarrow> heap \<Rightarrow> error + heap" where
  "determine_loop s arr k ncc nS h =
     (if k > 0 then
        (case rd h arr (k - 1) of
           Inl e \<Rightarrow> Inl e
         | Inr currentcc \<Rightarrow>
             (case (if \<not> (currentcc < ncc \<or> (currentcc = ncc \<and> nS)) \<and> nS then
                      (case rd h (sstarfirstcharcount s) ncc of
                         Inl e \<Rightarrow> Inl e
                       | Inr v \<Rightarrow> wr h (sstarfirstcharcount s) ncc (v + 1))
                    else Inr h) of
                Inl e \<Rightarrow> Inl e
              | Inr h1 \<Rightarrow>
                  (case rd h1 (bucketsize s) currentcc of
                     Inl e \<Rightarrow> Inl e
                   | Inr v \<Rightarrow>
                       (case wr h1 (bucketsize s) currentcc (v + 1) of
                          Inl e \<Rightarrow> Inl e
                        | Inr h2 \<Rightarrow>
                            determine_loop s arr (k - 1) currentcc
                              (currentcc < ncc \<or> (currentcc = ncc \<and> nS)) h2))))
      else Inr h)"
  by pat_completeness auto
termination
  by (relation "measure (\<lambda>(s, arr, k, ncc, nS, h). k)") auto

declare determine_loop.simps [simp del]

definition gt_sain_determineSstarfirstchardist ::
  "gt_env \<Rightarrow> GtSainseq \<Rightarrow> heap \<Rightarrow> error + heap" where
  "gt_sain_determineSstarfirstchardist env s h =
     (case seq s of
        Array arr \<Rightarrow>
          determine_loop s arr (totallength s) (GT_UNIQUEINT env (totallength s)) True h
      | Plainseq p \<Rightarrow> Inl (Assertion_failed 1299)
      | Encseq e \<Rightarrow> Inl (Assertion_failed 1299))"

text \<open>
  The inner loop of \<^verbatim>\<open>gt_sain_insertsortedSstarsuffixes\<close>; its bound
  \<^verbatim>\<open>sstarfirstcharcount[cc]\<close> is read again before every iteration.  The counter
  \<^verbatim>\<open>offset\<close> is an \<^verbatim>\<open>unsigned long\<close>, hence below \<open>bound = ulong_range\<close>.
\<close>

function insertsorted_copy ::
  "GtSainseq \<Rightarrow> ptr \<Rightarrow> nat \<Rightarrow> nat \<Rightarrow> nat \<Rightarrow> nat \<Rightarrow> nat \<Rightarrow> heap \<Rightarrow> error + heap" where
  "insertsorted_copy s suftab cc putidx readidx bound offset h =
     (case rd h (sstarfirstcharcount s) cc of
        Inl e \<Rightarrow> Inl e
      | Inr c \<Rightarrow>
          (if offset < c \<and> offset < bound then
             (case rd h suftab (ul_sub readidx offset) of
                Inl e \<Rightarrow> Inl e
              | Inr v \<Rightarrow>
                  (case wr h suftab (ul_sub putidx offset) v of
                     Inl e \<Rightarrow> Inl e
                   | Inr h1 \<Rightarrow>
                       (case wr h1 suftab (ul_sub readidx offset) 0 of
                          Inl e \<Rightarrow> Inl e
                        | Inr h2 \<Rightarrow>
                            insertsorted_copy s suftab cc putidx readidx bound (offset + 1) h2)))
           else Inr h))"
  by pat_completeness auto
termination
  by (relation "measure (\<lambda>(s, suftab, cc, putidx, readidx, bound, offset, h). bound - offset)")
     auto

declare insertsorted_copy.simps [simp del]

text \<open>The outer loop, \<^verbatim>\<open>for (cc = numofchars - 1; ; cc--) { ...; if (cc == 0) break; }\<close>.\<close>

function insertsorted_loop ::
  "GtSainseq \<Rightarrow> ptr \<Rightarrow> nat \<Rightarrow> nat \<Rightarrow> nat \<Rightarrow> heap \<Rightarrow> error + heap" where
  "insertsorted_loop s suftab cc readidx fillidx h =
     (case rd h (sstarfirstcharcount s) cc of
        Inl e \<Rightarrow> Inl e
      | Inr ssf0 \<Rightarrow>
          (case (if ssf0 > 0 then
                   (if \<not> readidx \<le> ul_sub fillidx 1 then Inl (Assertion_failed 1329)
                    else if readidx < ul_sub fillidx 1
                    then insertsorted_copy s suftab cc (ul_sub fillidx 1) readidx ulong_range 0 h
                    else Inr h)
                 else Inr h) of
             Inl e \<Rightarrow> Inl e
           | Inr h1 \<Rightarrow>
               (case rd h1 (bucketsize s) cc of
                  Inl e \<Rightarrow> Inl e
                | Inr b \<Rightarrow>
                    (if \<not> fillidx \<ge> b then Inl (Assertion_failed 1346)
                     else
                       (case rd h1 (sstarfirstcharcount s) cc of
                          Inl e \<Rightarrow> Inl e
                        | Inr ssf1 \<Rightarrow>
                            (if \<not> b \<ge> ssf1 then Inl (Assertion_failed 1348)
                             else
                               (case (if b > ssf1
                                      then gt_sain_setundefined False suftab (fillidx - b)
                                             (ul_sub (fillidx - b + b - ssf1) 1) h1
                                      else Inr h1) of
                                  Inl e \<Rightarrow> Inl e
                                | Inr h2 \<Rightarrow>
                                    (case rd h2 (sstarfirstcharcount s) cc of
                                       Inl e \<Rightarrow> Inl e
                                     | Inr ssf2 \<Rightarrow>
                                         (if cc = 0 then Inr h2
                                          else insertsorted_loop s suftab (cc - 1)
                                                 (ul_sub readidx ssf2) (fillidx - b) h2)))))))))"
  by pat_completeness auto
termination
  by (relation "measure (\<lambda>(s, suftab, cc, readidx, fillidx, h). cc)") auto

declare insertsorted_loop.simps [simp del]

definition gt_sain_insertsortedSstarsuffixes ::
  "GtSainseq \<Rightarrow> ptr \<Rightarrow> nat \<Rightarrow> nat \<Rightarrow> heap \<Rightarrow> error + heap" where
  "gt_sain_insertsortedSstarsuffixes s suftab readidx nonspecialentries h =
     insertsorted_loop s suftab (ul_sub (numofchars s) 1) readidx nonspecialentries h"

text \<open>
  \<^verbatim>\<open>gt_sain_filltailsuffixes\<close>: the loop over the positions of one range and the loop
  over the ranges; both return \<^verbatim>\<open>countspecial\<close>.
\<close>

function filltail_range ::
  "ptr \<Rightarrow> nat \<Rightarrow> nat \<Rightarrow> nat \<Rightarrow> nat \<Rightarrow> nat \<Rightarrow> heap \<Rightarrow> error + (heap \<times> nat)" where
  "filltail_range suftabtail specialcharacters n range_end idx countspecial h =
     (if idx < range_end then
        (if \<not> (countspecial < specialcharacters \<and> idx < n) then Inl (Assertion_failed 1389)
         else
           (case wr h suftabtail countspecial idx of
              Inl e \<Rightarrow> Inl e
            | Inr h1 \<Rightarrow>
                filltail_range suftabtail specialcharacters n range_end (idx + 1)
                  (countspecial + 1) h1))
      else Inr (h, countspecial))"
  by pat_completeness auto
termination
  by (relation "measure (\<lambda>(suftabtail, specialcharacters, n, range_end, idx, countspecial, h).
                           range_end - idx)")
     auto

declare filltail_range.simps [simp del]

fun filltail_ranges ::
  "ptr \<Rightarrow> nat \<Rightarrow> nat \<Rightarrow> GtReadmode \<Rightarrow> (nat \<times> nat) list \<Rightarrow> nat \<Rightarrow> heap \<Rightarrow> error + (heap \<times> nat)" where
  "filltail_ranges suftabtail specialcharacters n rm [] countspecial h = Inr (h, countspecial)"
| "filltail_ranges suftabtail specialcharacters n rm (rng # ranges) countspecial h =
     (case filltail_range suftabtail specialcharacters n
             (snd (if GT_ISDIRREVERSE rm then gt_range_reverse n rng else rng))
             (fst (if GT_ISDIRREVERSE rm then gt_range_reverse n rng else rng))
             countspecial h of
        Inl e \<Rightarrow> Inl e
      | Inr (h1, c1) \<Rightarrow> filltail_ranges suftabtail specialcharacters n rm ranges c1 h1)"

definition gt_sain_filltailsuffixes ::
  "ptr \<Rightarrow> gt_encseq \<Rightarrow> GtReadmode \<Rightarrow> heap \<Rightarrow> error + heap" where
  "gt_sain_filltailsuffixes suftabtail encseq rm h =
     (case (if gt_encseq_has_specialranges encseq then
              (case filltail_ranges suftabtail (gt_encseq_specialcharacters encseq)
                      (gt_encseq_total_length encseq) rm
                      (gt_specialrangeiterator encseq (if GT_ISDIRREVERSE rm then False else True))
                      0 h of
                 Inl e \<Rightarrow> Inl e
               | Inr (h1, countspecial) \<Rightarrow>
                   (if \<not> countspecial = gt_encseq_specialcharacters encseq
                    then Inl (Assertion_failed 1393) else Inr h1))
            else Inr h) of
        Inl e \<Rightarrow> Inl e
      | Inr h2 \<Rightarrow>
          wr h2 suftabtail (gt_encseq_specialcharacters encseq) (gt_encseq_total_length encseq))"


section \<open>One recursion level and the entry points\<close>

text \<open>The macro \<^verbatim>\<open>GT_SAIN_SHOWTIMER(DESC)\<close>; \<open>timer\<close> says that the timer is not \<^verbatim>\<open>NULL\<close>.\<close>

definition GT_SAIN_SHOWTIMER :: "bool \<Rightarrow> string \<Rightarrow> state \<Rightarrow> state" where
  "GT_SAIN_SHOWTIMER timer desc st = (if timer then st\<lparr>out := out st @ [Ev_timer desc]\<rparr> else st)"

text \<open>
  \<^verbatim>\<open>gt_sain_rec_sortsuffixes\<close>, lines 1425 to 1459: the first induction passes and the
  naming, for \<^verbatim>\<open>countSstartype > 0\<close>.  The result carries \<^verbatim>\<open>numberofnames\<close>.
\<close>

definition rec_naming ::
  "gt_env \<Rightarrow> GtSainseq \<Rightarrow> nat \<Rightarrow> ptr \<Rightarrow> nat \<Rightarrow> bool \<Rightarrow> state
   \<Rightarrow> error + (state \<times> GtSainseq \<times> nat)" where
  "rec_naming env s count suftab nonspecialentries timer st =
     (case (if roundtable s \<noteq> Null then gt_sain_incrementfirstSstar s suftab (heap st)
            else Inr (heap st)) of
        Inl e \<Rightarrow> Inl e
      | Inr h1 \<Rightarrow>
     (case gt_sain_startbuckets s h1 of
        Inl e \<Rightarrow> Inl e
      | Inr h2 \<Rightarrow>
     (case gt_sain_induceLtypesuffixes1 env s suftab nonspecialentries h2 of
        Inl e \<Rightarrow> Inl e
      | Inr (h3, s3) \<Rightarrow>
     (case gt_sain_endbuckets s3 h3 of
        Inl e \<Rightarrow> Inl e
      | Inr h4 \<Rightarrow>
     (case gt_sain_induceStypesuffixes1 env s3 suftab nonspecialentries h4 of
        Inl e \<Rightarrow> Inl e
      | Inr (h5, s5) \<Rightarrow>
     (case (if roundtable s5 = Null then
              (case gt_sain_moveSstar2front count suftab nonspecialentries h5 of
                 Inl e \<Rightarrow> Inl e
               | Inr h6 \<Rightarrow>
                   (case gt_sain_assignSstarlength env s5 (ptr_add suftab count) h6 of
                      Inl e \<Rightarrow> Inl e
                    | Inr h7 \<Rightarrow>
                        (case gt_sain_assignSstarnames env s5 count suftab h7 of
                           Inl e \<Rightarrow> Inl e
                         | Inr (h8, numberofnames) \<Rightarrow>
                             Inr (GT_SAIN_SHOWTIMER timer ''assignSstarnames''
                                    (GT_SAIN_SHOWTIMER timer ''assignSstarlength''
                                      (GT_SAIN_SHOWTIMER timer ''moverStar2front''
                                        (GT_SAIN_SHOWTIMER timer ''induce S suffixes''
                                          (GT_SAIN_SHOWTIMER timer ''induce L suffixes'' st))))
                                    \<lparr>heap := h8\<rparr>,
                                  s5, numberofnames))))
            else
              (case gt_sain_simple_moveSstar2front s5 count suftab nonspecialentries h5 of
                 Inl e \<Rightarrow> Inl e
               | Inr (h6, numberofnames) \<Rightarrow>
                   (case gt_sain_simple_assignSstarnames
                           (if \<not> roundtablepoints2suftab s5 then s5\<lparr>roundtable := Null\<rparr> else s5)
                           count suftab numberofnames nonspecialentries h6 of
                      Inl e \<Rightarrow> Inl e
                    | Inr h7 \<Rightarrow>
                        Inr (GT_SAIN_SHOWTIMER timer ''simple_moverStar2front''
                               (GT_SAIN_SHOWTIMER timer ''induce S suffixes''
                                 (GT_SAIN_SHOWTIMER timer ''induce L suffixes'' st))
                               \<lparr>heap := h7\<rparr>,
                             (if \<not> roundtablepoints2suftab s5 then s5\<lparr>roundtable := Null\<rparr>
                              else s5),
                             numberofnames)))) of
        Inl e \<Rightarrow> Inl e
      | Inr (st9, s9, numberofnames) \<Rightarrow>
          (if \<not> numberofnames \<le> count then Inl (Assertion_failed 1459)
           else Inr (st9, s9, numberofnames))))))))"

text \<open>
  Lines 1464 to 1480, for \<^verbatim>\<open>numberofnames < countSstartype\<close>: the names move to the
  front of the second half and become the sequence of the next level.  The result carries
  the next level's sequence view and \<^verbatim>\<open>firstusable\<close>.
\<close>

definition rec_subsequence ::
  "gt_env \<Rightarrow> nat \<Rightarrow> GtSainseq \<Rightarrow> nat \<Rightarrow> nat \<Rightarrow> ptr \<Rightarrow> nat \<Rightarrow> nat \<Rightarrow> bool \<Rightarrow> state
   \<Rightarrow> error + (state \<times> GtSainseq \<times> nat)" where
  "rec_subsequence env level s count numberofnames suftab firstusable suftabentries timer st =
     (case gt_sain_setundefined True suftab 0 (ul_sub count 1) (heap st) of
        Inl e \<Rightarrow> Inl e
      | Inr h1 \<Rightarrow>
          (case gt_sain_movenames2front suftab count (totallength s) h1 of
             Inl e \<Rightarrow> Inl e
           | Inr h2 \<Rightarrow>
               (case gt_sainseq_new_from_array env (ptr_add suftab count) count numberofnames
                       suftab (if level = 0 then GT_MULT2 count else firstusable) suftabentries
                       (GT_SAIN_SHOWTIMER timer ''movenames2front'' st\<lparr>heap := h2\<rparr>) of
                  Inl e \<Rightarrow> Inl e
                | Inr (st3, sainseq_rec) \<Rightarrow>
                    Inr (st3, sainseq_rec,
                         if level = 0 then GT_MULT2 count else firstusable))))"

text \<open>Lines 1497 to 1509, for \<^verbatim>\<open>numberofnames = countSstartype\<close>.\<close>

definition rec_unique_names ::
  "gt_env \<Rightarrow> GtSainseq \<Rightarrow> heap \<Rightarrow> error + (heap \<times> GtSainseq)" where
  "rec_unique_names env s h =
     (if seqtype s = GT_SAIN_INTSEQ then
        (if sstarfirstcharcount s \<noteq> Null then Inl (Assertion_failed 1500)
         else
           (case zero_both (bucketfillptr s) (bucketsize s) (numofchars s) 0 h of
              Inl e \<Rightarrow> Inl e
            | Inr h1 \<Rightarrow>
                (case gt_sain_determineSstarfirstchardist env
                        (s\<lparr>sstarfirstcharcount := bucketfillptr s\<rparr>) h1 of
                   Inl e \<Rightarrow> Inl e
                 | Inr h2 \<Rightarrow> Inr (h2, s\<lparr>sstarfirstcharcount := bucketfillptr s\<rparr>))))
      else Inr (h, s))"

text \<open>Lines 1512 to 1551: the second induction passes and the checks.\<close>

definition rec_finish ::
  "gt_env \<Rightarrow> GtSainseq \<Rightarrow> nat \<Rightarrow> ptr \<Rightarrow> nat \<Rightarrow> bool \<Rightarrow> bool \<Rightarrow> bool \<Rightarrow> state \<Rightarrow> error + state" where
  "rec_finish env s count suftab nonspecialentries intermediatecheck finalcheck timer st =
     (case (if intermediatecheck \<and> count > 0
            then gt_sain_checkorder env s suftab 0 (ul_sub count 1) (heap st) else Inr ()) of
        Inl e \<Rightarrow> Inl e
      | Inr u1 \<Rightarrow>
     (case (if count > 0
            then gt_sain_insertsortedSstarsuffixes s suftab (ul_sub count 1) nonspecialentries
                   (heap st)
            else Inr (heap st)) of
        Inl e \<Rightarrow> Inl e
      | Inr h1 \<Rightarrow>
     (case gt_sain_startbuckets s h1 of
        Inl e \<Rightarrow> Inl e
      | Inr h2 \<Rightarrow>
     (case gt_sain_induceLtypesuffixes2 env s suftab nonspecialentries h2 of
        Inl e \<Rightarrow> Inl e
      | Inr h3 \<Rightarrow>
     (case gt_sain_endbuckets s h3 of
        Inl e \<Rightarrow> Inl e
      | Inr h4 \<Rightarrow>
     (case gt_sain_induceStypesuffixes2 env s suftab nonspecialentries h4 of
        Inl e \<Rightarrow> Inl e
      | Inr h5 \<Rightarrow>
          (if nonspecialentries > 0 then
             (case (if intermediatecheck
                    then gt_sain_checkorder env s suftab 0 (ul_sub nonspecialentries 1) h5
                    else Inr ()) of
                Inl e \<Rightarrow> Inl e
              | Inr u2 \<Rightarrow>
                  (case seq s of
                     Encseq encseq \<Rightarrow>
                       (if finalcheck then
                          (case gt_sain_filltailsuffixes (ptr_add suftab nonspecialentries)
                                  encseq (readmode s) h5 of
                             Inl e \<Rightarrow> Inl e
                           | Inr h6 \<Rightarrow>
                               (case nth_opt h6 0 of
                                  None \<Rightarrow> Inl Out_of_bounds
                                | Some tab \<Rightarrow>
                                    (if gt_suftab_lightweightcheck env encseq (readmode s)
                                          (totallength s) tab
                                     then Inr (GT_SAIN_SHOWTIMER timer ''check suffix order''
                                                (GT_SAIN_SHOWTIMER timer ''fill tail suffixes''
                                                  (GT_SAIN_SHOWTIMER timer ''induce S suffixes''
                                                    (GT_SAIN_SHOWTIMER timer ''induce L suffixes''
                                                      (GT_SAIN_SHOWTIMER timer
                                                         ''insert sorted Sstar suffixes'' st))))
                                                \<lparr>heap := h6\<rparr>)
                                     else Inl Lightweight_check_failed)))
                        else Inr (GT_SAIN_SHOWTIMER timer ''induce S suffixes''
                                   (GT_SAIN_SHOWTIMER timer ''induce L suffixes''
                                     (GT_SAIN_SHOWTIMER timer ''insert sorted Sstar suffixes'' st))
                                   \<lparr>heap := h5\<rparr>))
                   | Plainseq p \<Rightarrow>
                       Inr (GT_SAIN_SHOWTIMER timer ''induce S suffixes''
                             (GT_SAIN_SHOWTIMER timer ''induce L suffixes''
                               (GT_SAIN_SHOWTIMER timer ''insert sorted Sstar suffixes'' st))
                             \<lparr>heap := h5\<rparr>)
                   | Array a \<Rightarrow>
                       Inr (GT_SAIN_SHOWTIMER timer ''induce S suffixes''
                             (GT_SAIN_SHOWTIMER timer ''induce L suffixes''
                               (GT_SAIN_SHOWTIMER timer ''insert sorted Sstar suffixes'' st))
                             \<lparr>heap := h5\<rparr>)))
           else Inr (GT_SAIN_SHOWTIMER timer ''induce S suffixes''
                      (GT_SAIN_SHOWTIMER timer ''induce L suffixes''
                        (GT_SAIN_SHOWTIMER timer ''insert sorted Sstar suffixes'' st))
                      \<lparr>heap := h5\<rparr>))))))))"

lemma gt_saininfo_new_count:
  assumes "gt_saininfo_new env s suftab st = Inr (st', count)"
  shows "2 * count \<le> totallength s"
  using assms
  by (auto simp: gt_saininfo_new_def GT_MULT2_def split: sum.splits prod.splits if_splits)

lemma gt_sainseq_new_from_array_totallength:
  assumes "gt_sainseq_new_from_array env arr len nchars suftab firstusable suftabentries st
           = Inr (st', s')"
  shows "totallength s' = len"
  using assms
  by (auto simp: gt_sainseq_new_from_array_def split: sum.splits prod.splits if_splits)

lemma rec_subsequence_totallength:
  assumes "rec_subsequence env level s count numberofnames suftab firstusable suftabentries
             timer st = Inr (st', s', fu)"
  shows "totallength s' = count"
  using assms
  by (auto simp: rec_subsequence_def split: sum.splits prod.splits
           dest: gt_sainseq_new_from_array_totallength)

text \<open>
  \<^verbatim>\<open>gt_sain_rec_sortsuffixes\<close>.  The recursive call sorts the sequence of names, whose
  length \<^verbatim>\<open>countSstartype\<close> is at most half of \<^verbatim>\<open>totallength\<close>.
\<close>

function gt_sain_rec_sortsuffixes ::
  "gt_env \<Rightarrow> nat \<Rightarrow> GtSainseq \<Rightarrow> ptr \<Rightarrow> nat \<Rightarrow> nat \<Rightarrow> nat \<Rightarrow> bool \<Rightarrow> bool \<Rightarrow> bool \<Rightarrow> bool
   \<Rightarrow> state \<Rightarrow> error + state" where
  "gt_sain_rec_sortsuffixes env level s suftab firstusable nonspecialentries suftabentries
     intermediatecheck finalcheck verbose timer st =
     (case gt_saininfo_new env s suftab
             (GT_SAIN_SHOWTIMER timer ''insert Sstar suffixes''
                (st\<lparr>out := out st @ [Ev_level level (totallength s) (numofchars s)]\<rparr>)) of
        Inl e \<Rightarrow> Inl e
      | Inr (st1, count) \<Rightarrow>
          (case (if count > 0 then
                   (case rec_naming env s count suftab nonspecialentries timer
                           (if verbose
                            then st1\<lparr>out := out st1 @ [Ev_sstar count (totallength s)]\<rparr>
                            else st1) of
                      Inl e \<Rightarrow> Inl e
                    | Inr (st2, s2, numberofnames) \<Rightarrow>
                        (if numberofnames < count then
                           (case rec_subsequence env level s2 count numberofnames suftab
                                   firstusable suftabentries timer st2 of
                              Inl e \<Rightarrow> Inl e
                            | Inr (st3, sainseq_rec, firstusable') \<Rightarrow>
                                (case gt_sain_rec_sortsuffixes env (level + 1) sainseq_rec suftab
                                        firstusable' count suftabentries intermediatecheck
                                        finalcheck verbose timer st3 of
                                   Inl e \<Rightarrow> Inl e
                                 | Inr st4 \<Rightarrow>
                                     (case gt_sain_expandorder2original env s2 count suftab
                                             (heap st4) of
                                        Inl e \<Rightarrow> Inl e
                                      | Inr (h5, s5) \<Rightarrow>
                                          Inr (GT_SAIN_SHOWTIMER timer ''expandorder2original'' st4
                                                 \<lparr>heap := h5\<rparr>, s5))))
                         else
                           (case rec_unique_names env s2 (heap st2) of
                              Inl e \<Rightarrow> Inl e
                            | Inr (h3, s3) \<Rightarrow> Inr (st2\<lparr>heap := h3\<rparr>, s3))))
                 else Inr (if verbose
                           then st1\<lparr>out := out st1 @ [Ev_sstar count (totallength s)]\<rparr>
                           else st1, s)) of
             Inl e \<Rightarrow> Inl e
           | Inr (st6, s6) \<Rightarrow>
               rec_finish env s6 count suftab nonspecialentries intermediatecheck finalcheck
                 timer st6))"
  by pat_completeness auto
termination
proof (relation "measure (\<lambda>(env, level, s, suftab, firstusable, nonspecialentries,
                             suftabentries, intermediatecheck, finalcheck, verbose, timer, st).
                           totallength s)", goal_cases)
  case 1
  show ?case by simp
next
  case (2 env level s suftab firstusable nonspecialentries suftabentries intermediatecheck
          finalcheck verbose timer st x2 st1 count x2a st2 y s2 numberofnames x2c st3 z
          sainseq_rec firstusable')
  from 2 have "2 * count \<le> totallength s" and "0 < count"
    by (auto dest: gt_saininfo_new_count)
  moreover from 2 have "totallength sainseq_rec = count"
    by (auto dest: rec_subsequence_totallength)
  ultimately show ?case by simp
qed

declare gt_sain_rec_sortsuffixes.simps [simp del]

text \<open>
  The entry points.  Both allocate \<^verbatim>\<open>suftab\<close> with \<^verbatim>\<open>gt_calloc\<close> as block 0 of an
  empty store and free it before they return; the result is the state just before that,
  the sorted array being block 0 of its store.
\<close>

definition gt_sain_encseq_sortsuffixes ::
  "gt_env \<Rightarrow> gt_encseq \<Rightarrow> GtReadmode \<Rightarrow> bool \<Rightarrow> bool \<Rightarrow> bool \<Rightarrow> bool \<Rightarrow> error + state" where
  "gt_sain_encseq_sortsuffixes env encseq rm intermediatecheck finalcheck verbose timer =
     (case gt_sainseq_new_from_encseq env encseq rm
             [replicate (gt_encseq_total_length encseq + 1) 0] of
        Inl e \<Rightarrow> Inl e
      | Inr (h, s) \<Rightarrow>
          gt_sain_rec_sortsuffixes env 0 s suftab_ptr 0
            (ul_sub (gt_encseq_total_length encseq) (gt_encseq_specialcharacters encseq))
            (gt_encseq_total_length encseq + 1)
            intermediatecheck finalcheck verbose timer \<lparr>heap = h, out = []\<rparr>)"

definition gt_sain_plain_sortsuffixes ::
  "gt_env \<Rightarrow> string \<Rightarrow> nat \<Rightarrow> bool \<Rightarrow> bool \<Rightarrow> bool \<Rightarrow> error + state" where
  "gt_sain_plain_sortsuffixes env plainseq len intermediatecheck verbose timer =
     (case gt_sainseq_new_from_plainseq env plainseq len [replicate (len + 1) 0] of
        Inl e \<Rightarrow> Inl e
      | Inr (h, s) \<Rightarrow>
          gt_sain_rec_sortsuffixes env 0 s suftab_ptr 0 (totallength s) (len + 1)
            intermediatecheck False verbose timer \<lparr>heap = h, out = []\<rparr>)"

text \<open>The array \<^verbatim>\<open>suftab\<close> of a final state.\<close>

definition suftab_of :: "state \<Rightarrow> nat list" where
  "suftab_of st = (case nth_opt (heap st) 0 of None \<Rightarrow> [] | Some tab \<Rightarrow> tab)"

section \<open>A 64-bit platform\<close>

text \<open>
  The parameters of \<open>gt_env\<close> on a platform whose \<^verbatim>\<open>unsigned long\<close> has 64 bits and whose
  \<^verbatim>\<open>unsigned char\<close> has 8: unique integers lie above every byte value, the complement of a
  base \<open>b\<close> of the DNA alphabet is \<open>3 - b\<close>, and the number of bits of a value is counted by
  halving.  The concrete runs below are evaluated in this environment.
\<close>

function bits_needed :: "nat \<Rightarrow> nat" where
  "bits_needed n = (if n = 0 then 0 else bits_needed (n div 2) + 1)"
  by pat_completeness auto
termination
  by (relation "measure (\<lambda>n. n)") auto

declare bits_needed.simps [simp del]

definition env64 :: gt_env where
  "env64 = \<lparr>GT_UNIQUEINT = (\<lambda>p. p + 256), GT_FIRSTTWOBITS = 4611686018427387903,
           GT_COMPAREOFFSET = 256, GT_COMPLEMENTBASE = (\<lambda>b. 3 - b),
           gt_determinebitspervalue = bits_needed,
           gt_suftab_lightweightcheck = (\<lambda>e r n t. True)\<rparr>"


section \<open>Evaluating concrete runs\<close>

text \<open>
  Arrays are written as runs \<open>replicate n x\<close>; reading and writing a cell of a run is
  computed without unfolding the run.
\<close>

lemma nth_opt_conv: "nth_opt xs i = (if i < length xs then Some (xs ! i) else None)"
  by (induction xs arbitrary: i) (auto simp: nth_Cons')

lemma upd_opt_conv: "upd_opt xs i v = (if i < length xs then Some (xs[i := v]) else None)"
proof (induction xs arbitrary: i)
  case Nil
  then show ?case by simp
next
  case (Cons x xs)
  then show ?case by (cases i) auto
qed

lemma nth_opt_replicate_append:
  "nth_opt (replicate n x @ ys) i = (if i < n then Some x else nth_opt ys (i - n))"
  by (auto simp: nth_opt_conv nth_append)

lemma nth_opt_replicate:
  "nth_opt (replicate n x) i = (if i < n then Some x else None)"
  by (auto simp: nth_opt_conv)

lemma replicate_update:
  "i < n \<Longrightarrow> (replicate n x)[i := v] = replicate i x @ v # replicate (n - i - 1) x"
  by (simp add: upd_conv_take_nth_drop min_def)

lemma upd_opt_replicate_append:
  "upd_opt (replicate n x @ ys) i v =
     (if i < n then (if v = x then Some (replicate n x @ ys)
                     else Some (replicate i x @ v # replicate (n - i - 1) x @ ys))
      else (case upd_opt ys (i - n) v of None \<Rightarrow> None | Some zs \<Rightarrow> Some (replicate n x @ zs)))"
proof (cases "i < n")
  case True
  have "(replicate n x)[i := x] = replicate n x"
    using True by (simp add: list_update_same_conv)
  with True show ?thesis
    by (simp add: upd_opt_conv list_update_append replicate_update)
next
  case False
  then show ?thesis
    by (auto simp: upd_opt_conv list_update_append)
qed

lemma upd_opt_replicate:
  "upd_opt (replicate n x) i v =
     (if i < n then (if v = x then Some (replicate n x)
                     else Some (replicate i x @ v # replicate (n - i - 1) x))
      else None)"
  using upd_opt_replicate_append [of n x "[]" i v] by simp

lemma run_cons_run: "(x::nat) # replicate n x @ ys = replicate (n + 1) x @ ys"
  by simp

lemma run_cons: "(x::nat) # replicate n x = replicate (n + 1) x"
  by simp

lemma run_snoc: "replicate n (x::nat) @ x # ys = replicate (n + 1) x @ ys"
  by (simp add: replicate_append_same)

lemma run_run_app: "replicate m (x::nat) @ replicate n x @ ys = replicate (m + n) x @ ys"
  by (simp add: replicate_add)

lemma run_run: "replicate m (x::nat) @ replicate n x = replicate (m + n) x"
  by (simp add: replicate_add)

lemma run_two: "(x::nat) # x # ys = replicate 2 x @ ys"
  by (simp add: numeral_2_eq_2)

lemma run_one: "replicate 1 (x::nat) = [x]"
  by simp

lemma nat_one: "nat 1 = 1"
  by simp

lemmas rle = nth_opt_replicate_append nth_opt_replicate upd_opt_replicate_append
  upd_opt_replicate run_cons_run run_cons run_snoc run_run_app run_run run_two run_one nat_one


text \<open>The definitions and the recursion equations of the model, for evaluation.\<close>

lemmas ev_defs =
  ulong_range_def ul_sub_def s64_def u64_def compl_def alloc_def suftab_ptr_def GT_MULT2_def
  GT_MULT4_def GT_DIV2_def GT_ISDIRREVERSE_def GT_ISDIRCOMPLEMENT_def
  gt_encseq_total_length_def gt_encseq_alphabetnumofchars_def gt_encseq_charcount_def
  gt_encseq_specialcharacters_def gt_encseq_has_specialranges_def
  gt_encseq_get_encoded_char_def gt_specialrangeiterator_def gt_range_reverse_def seqtype_def
  gt_sain_decideforfastmethod_def gt_sainseq_new_from_encseq_def UCHAR_MAX_def
  gt_sainseq_new_from_plainseq_def gt_sainseq_new_from_array_def gt_sainseq_getchar_def
  gt_sain_endbuckets_def gt_sain_startbuckets_def UINT16_MAX_def sizeof_GtSainbuffer_def
  sizeof_ulong_def sizeof_uint16_def gt_sainbuffer_new_def gt_sainbuffer_update_def
  gt_sainbuffer_flushall_def saininfo_seed_def saininfo_step_def gt_saininfo_new_def
  rd_long_def wr_long_def gt_sain_incrementfirstSstar_def GT_SAINUPDATEBUCKETPTR_def
  roundtable_step_def untag_round_def induceL1_body_def gt_sain_induceLtypesuffixes1_def
  gt_sain_special_singleSinduction1_def gt_sain_induceStypes1fromspecialranges_def
  induceS1_body_def gt_sain_induceStypesuffixes1_def gt_sain_moveSstar2front_def
  gt_sain_simple_moveSstar2front_def gt_sain_simple_assignSstarnames_def induceL2_body_def
  gt_sain_induceLtypesuffixes2_def Stype2_value_def gt_sain_special_singleSinduction2_def
  gt_sain_induceStypes2fromspecialranges_def induceS2_body_def
  gt_sain_induceStypesuffixes2_def seq_limit_def gt_sain_compare_Sstarstrings_def
  gt_sain_compare_suffixes_def gt_sain_setundefined_def gt_sain_assignSstarlength_def
  gt_sain_assignSstarnames_def gt_sain_movenames2front_def gt_sain_checkorder_def
  gt_sain_expandorder2original_def gt_sain_determineSstarfirstchardist_def
  gt_sain_insertsortedSstarsuffixes_def gt_sain_filltailsuffixes_def GT_SAIN_SHOWTIMER_def
  rec_naming_def rec_subsequence_def rec_unique_names_def rec_finish_def
  gt_sain_encseq_sortsuffixes_def gt_sain_plain_sortsuffixes_def suftab_of_def env64_def

lemmas ev_simps =
  encseq_bucketsizes.simps plainseq_bucketsizes.simps zero_cells.simps array_bucketsizes.simps
  endbuckets_loop.simps startbuckets_loop.simps sainbuffer_copy.simps
  sainbuffer_flush_loop.simps saininfo_scan.simps incrementfirstSstar_loop.simps
  induceL1_loop.simps nextgteq_search.simps induceL1_retag.simps induceStypes1_ranges.simps
  induceS1_loop.simps moveSstar_prefix.simps moveSstar_rest.simps
  simple_moveSstar_prefix.simps simple_moveSstar_rest.simps simple_assign_down.simps
  simple_assign_untag.simps induceL2_loop.simps induceStypes2_ranges.simps induceS2_loop.simps
  compare_Sstarstrings_loop.simps compare_suffixes_loop.simps setundefined_fwd.simps
  setundefined_bwd.simps assignSstarlength_scan.simps assignSstarnames_loop.simps
  movenames2front_loop.simps checkorder_loop.simps zero_both.simps expandorder_scan.simps
  expandorder_map.simps determine_loop.simps insertsorted_copy.simps insertsorted_loop.simps
  filltail_range.simps filltail_ranges.simps gt_sain_rec_sortsuffixes.simps bits_needed.simps

section \<open>The number of S*-positions\<close>

text \<open>
  A seed increments the counter and leaves the classification of the next position
  unchanged; an iteration seeds exactly when the current position is of type L and the next
  one of type S.
\<close>

lemma saininfo_seed_count:
  assumes "saininfo_seed s suftab position sc = Inr sc'"
  shows "countSstartype sc' = countSstartype sc + 1 \<and> nextisStype sc' = nextisStype sc
         \<and> nextcc sc' = nextcc sc"
proof (cases "sc_buffer sc")
  case None
  with assms show ?thesis
    unfolding saininfo_seed_def
    by (simp split: sum.splits if_splits) fastforce+
next
  case (Some buf)
  with assms show ?thesis
    unfolding saininfo_seed_def
    by (simp split: sum.splits prod.splits if_splits) fastforce+
qed

lemma saininfo_step_count:
  assumes "saininfo_step env s suftab position sc = Inr sc'"
  shows "\<exists>cc. gt_sainseq_getchar env s (sc_heap sc) position = Inr cc
           \<and> nextisStype sc' = (cc < nextcc sc \<or> (cc = nextcc sc \<and> nextisStype sc))
           \<and> countSstartype sc' =
               countSstartype sc
               + (if \<not> (cc < nextcc sc \<or> (cc = nextcc sc \<and> nextisStype sc)) \<and> nextisStype sc
                  then 1 else 0)"
proof (cases "gt_sainseq_getchar env s (sc_heap sc) position")
  case (Inl e)
  with assms show ?thesis by (simp add: saininfo_step_def)
next
  case (Inr cc)
  show ?thesis
  proof (cases "\<not> (cc < nextcc sc \<or> (cc = nextcc sc \<and> nextisStype sc)) \<and> nextisStype sc")
    case True
    then have t: "cc \<noteq> nextcc sc" "\<not> cc < nextcc sc" "nextisStype sc"
      by auto
    show ?thesis
    proof (cases "saininfo_seed s suftab position sc")
      case (Inl e)
      with assms Inr t show ?thesis by (simp add: saininfo_step_def)
    next
      case seed: (Inr sc1)
      with assms Inr t have
        sc': "sc' = sc1\<lparr>nextisStype := False, nextcc := cc\<rparr>"
        by (simp add: saininfo_step_def)
      from saininfo_seed_count [OF seed] sc' Inr t show ?thesis by simp
    qed
  next
    case False
    with assms Inr have
      "sc' = sc\<lparr>nextisStype := (cc < nextcc sc \<or> (cc = nextcc sc \<and> nextisStype sc)),
                  nextcc := cc\<rparr>"
      by (auto simp: saininfo_step_def split: if_splits)
    with Inr False show ?thesis by auto
  qed
qed

lemma saininfo_scan_unfold:
  assumes "saininfo_scan env s suftab position sc = Inr sc'"
  shows "\<exists>sc1. saininfo_step env s suftab position sc = Inr sc1
           \<and> (if position = 0 then sc' = sc1
                else saininfo_scan env s suftab (position - 1) sc1 = Inr sc')"
proof (cases "saininfo_step env s suftab position sc")
  case (Inl e)
  with assms show ?thesis by (subst (asm) saininfo_scan.simps) simp
next
  case (Inr sc1)
  with assms show ?thesis
    by (subst (asm) saininfo_scan.simps) (simp split: if_splits)
qed

lemma step_arith:
  fixes c c1 c' p :: nat
  assumes "p \<noteq> 0"
    and "c' \<le> c1 + (if n1 then (p - 1 + 2) div 2 else (p - 1 + 1) div 2)"
    and "c1 \<le> c + (if n \<and> \<not> n1 then 1 else 0)"
  shows "c' \<le> c + (if n then (p + 2) div 2 else (p + 1) div 2)"
proof (cases n)
  case True
  show ?thesis
  proof (cases n1)
    case n1: True
    with assms True show ?thesis by (simp; arith)
  next
    case n1: False
    with assms True show ?thesis by (simp; arith)
  qed
next
  case False
  show ?thesis
  proof (cases n1)
    case n1: True
    with assms False show ?thesis by simp
  next
    case n1: False
    with assms False show ?thesis by (simp; arith)
  qed
qed

lemma base_arith:
  fixes c c1 :: nat
  assumes "c1 \<le> c + (if n \<and> \<not> n1 then 1 else 0)"
  shows "c1 \<le> c + (if n then (0 + 2) div 2 else (0 + 1) div 2)"
  using assms by (cases n) (simp_all split: if_splits)

lemma saininfo_scan_count:
  "saininfo_scan env s suftab position sc = Inr sc' \<Longrightarrow>
   countSstartype sc' \<le> countSstartype sc
      + (if nextisStype sc then (position + 2) div 2 else (position + 1) div 2)"
proof (induction env s suftab position sc rule: saininfo_scan.induct)
  case (1 env s suftab position sc)
  from saininfo_scan_unfold [OF "1.prems"] obtain sc1 where
    step: "saininfo_step env s suftab position sc = Inr sc1" and
    rest: "if position = 0 then sc' = sc1
           else saininfo_scan env s suftab (position - 1) sc1 = Inr sc'"
    by blast
  from saininfo_step_count [OF step] obtain cc where
    nS: "nextisStype sc1 = (cc < nextcc sc \<or> (cc = nextcc sc \<and> nextisStype sc))" and
    cnt: "countSstartype sc1 = countSstartype sc
            + (if \<not> (cc < nextcc sc \<or> (cc = nextcc sc \<and> nextisStype sc)) \<and> nextisStype sc
               then 1 else 0)"
    by blast
  have cnt1: "countSstartype sc1
        \<le> countSstartype sc + (if nextisStype sc \<and> \<not> nextisStype sc1 then 1 else 0)"
    unfolding cnt nS by auto
  show ?case
  proof (cases "position = 0")
    case True
    with rest have "countSstartype sc' = countSstartype sc1" by simp
    with base_arith [OF cnt1] True show ?thesis by (auto split: if_splits)
  next
    case False
    with rest have r: "saininfo_scan env s suftab (position - 1) sc1 = Inr sc'" by simp
    from "1.IH" [OF step False r]
    have b: "countSstartype sc' \<le> countSstartype sc1
            + (if nextisStype sc1 then (position - 1 + 2) div 2 else (position - 1 + 1) div 2)" .
    from False b cnt1 show ?thesis by (rule step_arith)
  qed
qed

text \<open>A sequence of two bytes, whose scan seeds one position; the buckets end at cell 2.\<close>

definition scan_seq :: GtSainseq where
  "scan_seq = \<lparr>totallength = 2, numofchars = 256, currentround = 0, bucketsize = Null,
     bucketfillptr = Ptr 1 0, sstarfirstcharcount = Null, roundtable = Null,
     seq = Plainseq ''ba'', readmode = GT_READMODE_FORWARD,
     bucketfillptrpoints2suftab = False, bucketsizepoints2suftab = False,
     roundtablepoints2suftab = False\<rparr>"

lemma scan_seq_run:
  "saininfo_scan env64 scan_seq suftab_ptr (ul_sub (totallength scan_seq) 1)
     \<lparr>sc_heap = [replicate 3 0, replicate 256 2], sc_buffer = None, countSstartype = 0,
      nextcc = GT_UNIQUEINT env64 (totallength scan_seq), nextisStype = True\<rparr>
   = Inr \<lparr>sc_heap = [replicate 3 0, replicate 97 2 @ 1 # replicate 158 2], sc_buffer = None,
          countSstartype = 1, nextcc = 98, nextisStype = False\<rparr>"
  by (simp add: scan_seq_def env64_def suftab_ptr_def ul_sub_def saininfo_scan.simps
        saininfo_step_def saininfo_seed_def gt_sainseq_getchar_def rle
      del: One_nat_def nat_1)

text \<open>
  Claim C9.  The classification scan of \<^verbatim>\<open>gt_saininfo_new\<close>, started as the code starts it
  (at position \<open>totallength - 1\<close>, with \<open>nextcc\<close> the unique integer of \<open>totallength\<close>, the position
  after the end counting as type S and no position counted yet), counts at most
  \<open>totallength div 2\<close> positions of type S*, on every non-empty sequence of every recursion
  level and for both ways of seeding (with and without write buffer), provided the last
  symbol of the sequence is not larger than the unique integer of \<open>totallength\<close>: two positions
  counted are at least two apart and position \<open>totallength - 1\<close> is never counted.
\<close>

theorem lms_count_bound:
  assumes "0 < totallength s"
    and "saininfo_scan env s suftab (ul_sub (totallength s) 1)
           \<lparr>sc_heap = h, sc_buffer = b, countSstartype = 0,
            nextcc = GT_UNIQUEINT env (totallength s), nextisStype = True\<rparr> = Inr sc"
    and "\<forall>c. gt_sainseq_getchar env s h (totallength s - 1) = Inr c
             \<longrightarrow> c \<le> GT_UNIQUEINT env (totallength s)"
  shows "2 * countSstartype sc \<le> totallength s"
proof -
  let ?n = "totallength s"
  let ?sc0 = "\<lparr>sc_heap = h, sc_buffer = b, countSstartype = 0,
               nextcc = GT_UNIQUEINT env ?n, nextisStype = True\<rparr>"
  have pos: "ul_sub ?n 1 = ?n - 1"
    using assms(1) by (simp add: ul_sub_def)
  from assms(2) have scan: "saininfo_scan env s suftab (?n - 1) ?sc0 = Inr sc"
    unfolding pos .
  from saininfo_scan_unfold [OF scan] obtain sc1 where
    step: "saininfo_step env s suftab (?n - 1) ?sc0 = Inr sc1" and
    rest: "if ?n - 1 = 0 then sc = sc1
           else saininfo_scan env s suftab (?n - 1 - 1) sc1 = Inr sc"
    by blast
  from saininfo_step_count [OF step] obtain cc where
    cc: "gt_sainseq_getchar env s h (?n - 1) = Inr cc" and
    nS: "nextisStype sc1 = (cc < GT_UNIQUEINT env ?n \<or> cc = GT_UNIQUEINT env ?n)" and
    cnt: "countSstartype sc1 =
            (if \<not> (cc < GT_UNIQUEINT env ?n \<or> cc = GT_UNIQUEINT env ?n) then 1 else 0)"
    by auto
  from assms(3) cc have le: "cc \<le> GT_UNIQUEINT env ?n" by blast
  with nS cnt have nS1: "nextisStype sc1" and cnt0: "countSstartype sc1 = 0"
    by auto
  show ?thesis
  proof (cases "?n - 1 = 0")
    case True
    with rest have "countSstartype sc = countSstartype sc1" by simp
    with cnt0 show ?thesis by simp
  next
    case False
    with rest have "saininfo_scan env s suftab (?n - 1 - 1) sc1 = Inr sc" by simp
    from saininfo_scan_count [OF this] nS1 cnt0
    have "countSstartype sc \<le> (?n - 1 - 1 + 2) div 2" by simp
    with False show ?thesis by arith
  qed
qed

theorem lms_count_bound_witness:
  "0 < totallength scan_seq
   \<and> saininfo_scan env64 scan_seq suftab_ptr (ul_sub (totallength scan_seq) 1)
         \<lparr>sc_heap = [replicate 3 0, replicate 256 2], sc_buffer = None, countSstartype = 0,
          nextcc = GT_UNIQUEINT env64 (totallength scan_seq), nextisStype = True\<rparr>
       = Inr \<lparr>sc_heap = [replicate 3 0, replicate 97 2 @ 1 # replicate 158 2],
              sc_buffer = None, countSstartype = 1, nextcc = 98, nextisStype = False\<rparr>
   \<and> gt_sainseq_getchar env64 scan_seq [replicate 3 0, replicate 256 2]
         (totallength scan_seq - 1) = Inr 97
   \<and> 97 \<le> GT_UNIQUEINT env64 (totallength scan_seq)
   \<and> 2 * countSstartype
           \<lparr>sc_heap = [replicate 3 0, replicate 97 2 @ 1 # replicate 158 2], sc_buffer = None,
            countSstartype = 1, nextcc = 98, nextisStype = False\<rparr>
       \<le> totallength scan_seq"
proof -
  have a: "0 < totallength scan_seq"
    by (simp add: scan_seq_def)
  have g: "gt_sainseq_getchar env64 scan_seq [replicate 3 0, replicate 256 2]
             (totallength scan_seq - 1) = Inr 97"
    by (simp add: scan_seq_def gt_sainseq_getchar_def)
  have u: "97 \<le> GT_UNIQUEINT env64 (totallength scan_seq)"
    by (simp add: env64_def)
  from g u
  have c: "\<forall>c. gt_sainseq_getchar env64 scan_seq [replicate 3 0, replicate 256 2]
                 (totallength scan_seq - 1) = Inr c
               \<longrightarrow> c \<le> GT_UNIQUEINT env64 (totallength scan_seq)"
    by simp
  from lms_count_bound [OF a scan_seq_run c] a scan_seq_run g u show ?thesis
    by blast
qed


section \<open>The empty sequence\<close>

text \<open>
  On a plain sequence of length 0 the scan starts at \<open>totallength - 1\<close>, which wraps around, and
  its first step reads outside the sequence.
\<close>

lemma saininfo_scan_empty_plain:
  assumes "seq s = Plainseq []"
  shows "saininfo_scan env s suftab position sc = Inl Out_of_bounds"
  using assms
  by (subst saininfo_scan.simps) (simp add: saininfo_step_def gt_sainseq_getchar_def)

lemma gt_saininfo_new_empty_plain:
  assumes "seq s = Plainseq []"
  shows "gt_saininfo_new env s suftab st \<noteq> Inr r"
  unfolding gt_saininfo_new_def
  by (simp add: saininfo_scan_empty_plain [OF assms] split: sum.splits prod.splits)

lemma rec_sortsuffixes_empty_plain:
  assumes "seq s = Plainseq []"
  shows "gt_sain_rec_sortsuffixes env level s suftab firstusable nonspecialentries
           suftabentries intermediatecheck finalcheck verbose timer st \<noteq> Inr st'"
proof (cases "gt_saininfo_new env s suftab
               (GT_SAIN_SHOWTIMER timer ''insert Sstar suffixes''
                  (st\<lparr>out := out st @ [Ev_level level (totallength s) (numofchars s)]\<rparr>))")
  case (Inl e)
  then show ?thesis
    by (subst gt_sain_rec_sortsuffixes.simps) simp
next
  case (Inr r)
  with gt_saininfo_new_empty_plain [OF assms] show ?thesis
    by blast
qed

lemma new_from_plainseq_seq:
  assumes "gt_sainseq_new_from_plainseq env plainseq len h0 = Inr (h, s)"
  shows "seq s = Plainseq plainseq \<and> totallength s = len \<and> numofchars s = 256"
  using assms
  by (cases "gt_sain_decideforfastmethod env ((len + 1) mod ulong_range) len")
     (auto simp: gt_sainseq_new_from_plainseq_def alloc_def UCHAR_MAX_def split: sum.splits)

text \<open>
  Claim C7.  \<^verbatim>\<open>gt_sain_plain_sortsuffixes\<close> on the empty sequence does not return a sorted
  array, for all flags and on every platform: the classification scan of
  \<^verbatim>\<open>gt_saininfo_new\<close> reads the sequence at position \<open>2 ^ 64 - 1\<close>.
\<close>

theorem empty_input_fails:
  "gt_sain_plain_sortsuffixes env [] 0 intermediatecheck verbose timer \<noteq> Inr st"
proof (cases "gt_sainseq_new_from_plainseq env [] 0 [replicate (0 + 1) 0]")
  case (Inl e)
  then show ?thesis
    by (simp add: gt_sain_plain_sortsuffixes_def)
next
  case (Inr r)
  obtain h s where r: "r = (h, s)"
    by (cases r)
  from Inr r new_from_plainseq_seq [of env "[]" 0 _ h s] have "seq s = Plainseq []"
    by simp
  from rec_sortsuffixes_empty_plain [OF this] Inr r show ?thesis
    by (simp add: gt_sain_plain_sortsuffixes_def)
qed

section \<open>The decision for the round table\<close>

text \<open>
  Each constructor allocates the round table exactly when \<^verbatim>\<open>gt_sain_decideforfastmethod\<close>
  holds of the arguments that it passes.  A sequence of \<open>n\<close> symbols whose array of \<open>n + 1\<close>
  words can be allocated passes a first argument below \<^verbatim>\<open>GT_FIRSTTWOBITS\<close>.
\<close>

lemma new_from_encseq_roundtable:
  assumes "gt_sainseq_new_from_encseq env encseq rm h0 = Inr (h, s)"
  shows "(roundtable s \<noteq> Null) =
           gt_sain_decideforfastmethod env
             ((gt_encseq_total_length encseq + GT_COMPAREOFFSET env) mod ulong_range)
             (gt_encseq_total_length encseq)
         \<and> numofchars s = gt_encseq_alphabetnumofchars encseq
         \<and> totallength s = gt_encseq_total_length encseq"
  using assms
  by (cases "gt_sain_decideforfastmethod env
               ((gt_encseq_total_length encseq + GT_COMPAREOFFSET env) mod ulong_range)
               (gt_encseq_total_length encseq)")
     (auto simp: gt_sainseq_new_from_encseq_def alloc_def split: sum.splits)

lemma new_from_plainseq_roundtable:
  assumes "gt_sainseq_new_from_plainseq env plainseq len h0 = Inr (h, s)"
  shows "(roundtable s \<noteq> Null) =
           gt_sain_decideforfastmethod env ((len + 1) mod ulong_range) len
         \<and> numofchars s = UCHAR_MAX + 1 \<and> totallength s = len"
  using assms
  by (cases "gt_sain_decideforfastmethod env ((len + 1) mod ulong_range) len")
     (auto simp: gt_sainseq_new_from_plainseq_def alloc_def split: sum.splits)

lemma new_from_array_roundtable:
  assumes "gt_sainseq_new_from_array env arr len nchars (Ptr b off) firstusable suftabentries st0
           = Inr (st, s)"
  shows "(roundtable s \<noteq> Null) =
           gt_sain_decideforfastmethod env ((len + 1) mod ulong_range) len
         \<and> numofchars s = nchars \<and> totallength s = len"
  using assms
  by (cases "gt_sain_decideforfastmethod env ((len + 1) mod ulong_range) len")
     (auto simp: gt_sainseq_new_from_array_def alloc_def
           split: sum.splits if_splits prod.splits)

lemma decide_allocatable:
  assumes "ulong_range div sizeof_ulong + k \<le> GT_FIRSTTWOBITS env"
    and "sizeof_ulong * (n + 1) < ulong_range"
    and "sizeof_ulong * sigma < ulong_range"
  shows "gt_sain_decideforfastmethod env ((n + k) mod ulong_range) n
         = (sigma < GT_FIRSTTWOBITS env \<and> n > 1024)"
proof -
  from assms(2) have n: "n < ulong_range div sizeof_ulong"
    by (simp add: sizeof_ulong_def ulong_range_def)
  from assms(3) have s: "sigma < ulong_range div sizeof_ulong"
    by (simp add: sizeof_ulong_def ulong_range_def)
  have "(n + k) mod ulong_range \<le> n + k"
    by simp
  with n assms(1) have "(n + k) mod ulong_range < GT_FIRSTTWOBITS env"
    by arith
  moreover from s assms(1) have "sigma < GT_FIRSTTWOBITS env"
    by arith
  ultimately show ?thesis
    by (simp add: gt_sain_decideforfastmethod_def)
qed

text \<open>
  The induction passes before naming change \<open>currentround\<close> only; the field \<open>roundtable\<close>
  that \<^verbatim>\<open>gt_sain_rec_sortsuffixes\<close> tests after them is the one it tested before them.
\<close>

lemma untag_round_roundtable:
  assumes "untag_round line position st = Inr (st', position')"
  shows "roundtable (i_seq st') = roundtable (i_seq st)"
  using assms by (auto simp: untag_round_def split: if_splits)

lemma roundtable_step_seq:
  assumes "roundtable_step line extra t position st = Inr (st', position')"
  shows "i_seq st' = i_seq st"
  using assms by (auto simp: roundtable_step_def split: if_splits sum.splits)

lemma GT_SAINUPDATEBUCKETPTR_seq:
  assumes "GT_SAINUPDATEBUCKETPTR cc st = Inr (st', bp)"
  shows "i_seq st' = i_seq st"
  using assms
  by (auto simp: GT_SAINUPDATEBUCKETPTR_def split: option.splits if_splits sum.splits)

lemma induceL1_body_roundtable:
  assumes "induceL1_body env suftab i st = Inr st'"
  shows "roundtable (i_seq st') = roundtable (i_seq st)"
  using assms unfolding induceL1_body_def
  by (auto split: sum.splits prod.splits if_splits
           dest!: untag_round_roundtable roundtable_step_seq GT_SAINUPDATEBUCKETPTR_seq)

lemma induceL1_loop_roundtable:
  "induceL1_loop env suftab n i st = Inr st' \<Longrightarrow> roundtable (i_seq st') = roundtable (i_seq st)"
proof (induction env suftab n i st rule: induceL1_loop.induct)
  case (1 env suftab n i st)
  show ?case
  proof (cases "i < n")
    case False
    with "1.prems" show ?thesis
      by (simp add: induceL1_loop.simps)
  next
    case True
    show ?thesis
    proof (cases "induceL1_body env suftab i st")
      case (Inl e)
      with True "1.prems" show ?thesis
        by (simp add: induceL1_loop.simps [of _ _ _ i])
    next
      case (Inr st1)
      with True "1.prems" have "induceL1_loop env suftab n (i + 1) st1 = Inr st'"
        by (simp add: induceL1_loop.simps [of _ _ _ i])
      from "1.IH" [OF True Inr this] induceL1_body_roundtable [OF Inr] show ?thesis
        by simp
    qed
  qed
qed

lemma gt_sain_induceLtypesuffixes1_roundtable:
  assumes "gt_sain_induceLtypesuffixes1 env s suftab n h = Inr (h', s')"
  shows "roundtable s' = roundtable s"
  using assms unfolding gt_sain_induceLtypesuffixes1_def
  by (auto split: sum.splits if_splits dest!: induceL1_loop_roundtable)

lemma singleSinduction1_seq:
  assumes "gt_sain_special_singleSinduction1 env suftab position hs = Inr hs'"
  shows "snd hs' = snd hs"
  using assms unfolding gt_sain_special_singleSinduction1_def
  by (auto split: sum.splits prod.splits if_splits)

lemma induceStypes1_ranges_seq:
  "induceStypes1_ranges env suftab ranges hs = Inr hs' \<Longrightarrow> snd hs' = snd hs"
proof (induction ranges arbitrary: hs)
  case Nil
  then show ?case by simp
next
  case (Cons rng ranges)
  then show ?case
    by (auto split: if_splits sum.splits dest!: singleSinduction1_seq)
qed

lemma induceS1_body_roundtable:
  assumes "induceS1_body env suftab i st = Inr st'"
  shows "roundtable (i_seq st') = roundtable (i_seq st)"
  using assms unfolding induceS1_body_def
  by (auto split: sum.splits prod.splits if_splits
           dest!: untag_round_roundtable roundtable_step_seq GT_SAINUPDATEBUCKETPTR_seq)

lemma induceS1_loop_roundtable:
  "induceS1_loop env suftab k st = Inr st' \<Longrightarrow> roundtable (i_seq st') = roundtable (i_seq st)"
proof (induction env suftab k st rule: induceS1_loop.induct)
  case (1 env suftab k st)
  show ?case
  proof (cases "k > 0")
    case False
    with "1.prems" show ?thesis
      by (simp add: induceS1_loop.simps)
  next
    case True
    show ?thesis
    proof (cases "induceS1_body env suftab (k - 1) st")
      case (Inl e)
      with True "1.prems" show ?thesis
        by (simp add: induceS1_loop.simps [of _ _ k])
    next
      case (Inr st1)
      with True "1.prems" have "induceS1_loop env suftab (k - 1) st1 = Inr st'"
        by (simp add: induceS1_loop.simps [of _ _ k])
      from "1.IH" [OF True Inr this] induceS1_body_roundtable [OF Inr] show ?thesis
        by simp
    qed
  qed
qed

lemma gt_sain_induceStypesuffixes1_roundtable:
  assumes "gt_sain_induceStypesuffixes1 env s suftab n h = Inr (h', s')"
  shows "roundtable s' = roundtable s"
  using assms unfolding gt_sain_induceStypesuffixes1_def
    gt_sain_induceStypes1fromspecialranges_def
  by (auto split: sum.splits if_splits seq_union.splits
           dest!: induceS1_loop_roundtable singleSinduction1_seq induceStypes1_ranges_seq)


lemma rec_naming_roundtable_after_passes:
  assumes "gt_sain_induceLtypesuffixes1 env s suftab n h2 = Inr (h3, s3)"
    and "gt_sain_induceStypesuffixes1 env s3 suftab n h4 = Inr (h5, s5)"
  shows "roundtable s5 = roundtable s"
  using gt_sain_induceLtypesuffixes1_roundtable [OF assms(1)]
    gt_sain_induceStypesuffixes1_roundtable [OF assms(2)]
  by simp

lemma rec_naming_without_roundtable:
  assumes "roundtable s = Null"
  shows "rec_naming env s count suftab nonspecialentries timer st =
     (case gt_sain_startbuckets s (heap st) of
        Inl e \<Rightarrow> Inl e
      | Inr h2 \<Rightarrow>
     (case gt_sain_induceLtypesuffixes1 env s suftab nonspecialentries h2 of
        Inl e \<Rightarrow> Inl e
      | Inr (h3, s3) \<Rightarrow>
     (case gt_sain_endbuckets s3 h3 of
        Inl e \<Rightarrow> Inl e
      | Inr h4 \<Rightarrow>
     (case gt_sain_induceStypesuffixes1 env s3 suftab nonspecialentries h4 of
        Inl e \<Rightarrow> Inl e
      | Inr (h5, s5) \<Rightarrow>
     (case gt_sain_moveSstar2front count suftab nonspecialentries h5 of
        Inl e \<Rightarrow> Inl e
      | Inr h6 \<Rightarrow>
     (case gt_sain_assignSstarlength env s5 (ptr_add suftab count) h6 of
        Inl e \<Rightarrow> Inl e
      | Inr h7 \<Rightarrow>
     (case gt_sain_assignSstarnames env s5 count suftab h7 of
        Inl e \<Rightarrow> Inl e
      | Inr (h8, numberofnames) \<Rightarrow>
          (if \<not> numberofnames \<le> count then Inl (Assertion_failed 1459)
           else Inr (GT_SAIN_SHOWTIMER timer ''assignSstarnames''
                      (GT_SAIN_SHOWTIMER timer ''assignSstarlength''
                        (GT_SAIN_SHOWTIMER timer ''moverStar2front''
                          (GT_SAIN_SHOWTIMER timer ''induce S suffixes''
                            (GT_SAIN_SHOWTIMER timer ''induce L suffixes'' st))))
                      \<lparr>heap := h8\<rparr>,
                     s5, numberofnames)))))))))"
  unfolding rec_naming_def
  using assms
  by (auto split: sum.splits prod.splits dest!: rec_naming_roundtable_after_passes)

lemma rec_naming_with_roundtable:
  assumes "roundtable s \<noteq> Null"
  shows "rec_naming env s count suftab nonspecialentries timer st =
     (case gt_sain_incrementfirstSstar s suftab (heap st) of
        Inl e \<Rightarrow> Inl e
      | Inr h1 \<Rightarrow>
     (case gt_sain_startbuckets s h1 of
        Inl e \<Rightarrow> Inl e
      | Inr h2 \<Rightarrow>
     (case gt_sain_induceLtypesuffixes1 env s suftab nonspecialentries h2 of
        Inl e \<Rightarrow> Inl e
      | Inr (h3, s3) \<Rightarrow>
     (case gt_sain_endbuckets s3 h3 of
        Inl e \<Rightarrow> Inl e
      | Inr h4 \<Rightarrow>
     (case gt_sain_induceStypesuffixes1 env s3 suftab nonspecialentries h4 of
        Inl e \<Rightarrow> Inl e
      | Inr (h5, s5) \<Rightarrow>
     (case gt_sain_simple_moveSstar2front s5 count suftab nonspecialentries h5 of
        Inl e \<Rightarrow> Inl e
      | Inr (h6, numberofnames) \<Rightarrow>
     (case gt_sain_simple_assignSstarnames
             (if \<not> roundtablepoints2suftab s5 then s5\<lparr>roundtable := Null\<rparr> else s5)
             count suftab numberofnames nonspecialentries h6 of
        Inl e \<Rightarrow> Inl e
      | Inr h7 \<Rightarrow>
          (if \<not> numberofnames \<le> count then Inl (Assertion_failed 1459)
           else Inr (GT_SAIN_SHOWTIMER timer ''simple_moverStar2front''
                      (GT_SAIN_SHOWTIMER timer ''induce S suffixes''
                        (GT_SAIN_SHOWTIMER timer ''induce L suffixes'' st))
                      \<lparr>heap := h7\<rparr>,
                     (if \<not> roundtablepoints2suftab s5 then s5\<lparr>roundtable := Null\<rparr> else s5),
                     numberofnames)))))))))"
  unfolding rec_naming_def
  using assms
  by (auto split: sum.splits prod.splits dest!: rec_naming_roundtable_after_passes)

text \<open>
  Claim C3.  Let every array of \<open>n + 1\<close> words with \<open>n + 1\<close> at most
  \<open>ulong_range div sizeof_ulong\<close> have its length plus \<^verbatim>\<open>GT_COMPAREOFFSET\<close> (and plus one) at
  most \<^verbatim>\<open>GT_FIRSTTWOBITS\<close>.  Then for a sequence view that a constructor returns, of a
  sequence whose \<open>suftab\<close> of \<open>totallength + 1\<close> words and whose bucket array of \<open>numofchars\<close>
  words can be allocated, the round table is enabled (\<open>roundtable\<close> is not \<^verbatim>\<open>NULL\<close>) if and
  only if \<open>numofchars\<close> is less than \<^verbatim>\<open>GT_FIRSTTWOBITS\<close> and \<open>totallength\<close> is greater than
  1024; this holds of the encoded sequence, the plain sequence and the sequence of names of
  a recursion level.  When \<open>roundtable\<close> is \<^verbatim>\<open>NULL\<close>, \<^verbatim>\<open>gt_sain_rec_sortsuffixes\<close> takes the path
  without round table: it skips \<^verbatim>\<open>gt_sain_incrementfirstSstar\<close>, runs the two induction
  passes, after which \<open>roundtable\<close> is still \<^verbatim>\<open>NULL\<close>, and compacts and names the S*-positions
  by \<^verbatim>\<open>gt_sain_moveSstar2front\<close>, \<^verbatim>\<open>gt_sain_assignSstarlength\<close> and
  \<^verbatim>\<open>gt_sain_assignSstarnames\<close>, never by the functions of the round-table variant.
\<close>

theorem fastmethod_predicate:
  assumes "ulong_range div sizeof_ulong + GT_COMPAREOFFSET env \<le> GT_FIRSTTWOBITS env"
    and "ulong_range div sizeof_ulong + 1 \<le> GT_FIRSTTWOBITS env"
  shows
   "(gt_sainseq_new_from_encseq env encseq rm h0 = Inr (h, s)
       \<and> sizeof_ulong * (gt_encseq_total_length encseq + 1) < ulong_range
       \<and> sizeof_ulong * gt_encseq_alphabetnumofchars encseq < ulong_range \<longrightarrow>
      (roundtable s \<noteq> Null) = (numofchars s < GT_FIRSTTWOBITS env \<and> totallength s > 1024))
    \<and> (gt_sainseq_new_from_plainseq env plainseq len h0' = Inr (h', s')
         \<and> sizeof_ulong * (len + 1) < ulong_range \<longrightarrow>
        (roundtable s' \<noteq> Null) = (numofchars s' < GT_FIRSTTWOBITS env \<and> totallength s' > 1024))
    \<and> (gt_sainseq_new_from_array env arr n nchars (Ptr b off) firstusable suftabentries st0
          = Inr (st, s'')
         \<and> sizeof_ulong * (n + 1) < ulong_range
         \<and> sizeof_ulong * nchars < ulong_range \<longrightarrow>
        (roundtable s'' \<noteq> Null) = (numofchars s'' < GT_FIRSTTWOBITS env \<and> totallength s'' > 1024))
    \<and> (roundtable t = Null \<longrightarrow>
        rec_naming env t count suftab nonspecialentries timer st1 =
         (case gt_sain_startbuckets t (heap st1) of
            Inl e \<Rightarrow> Inl e
          | Inr h2 \<Rightarrow>
         (case gt_sain_induceLtypesuffixes1 env t suftab nonspecialentries h2 of
            Inl e \<Rightarrow> Inl e
          | Inr (h3, t3) \<Rightarrow>
         (case gt_sain_endbuckets t3 h3 of
            Inl e \<Rightarrow> Inl e
          | Inr h4 \<Rightarrow>
         (case gt_sain_induceStypesuffixes1 env t3 suftab nonspecialentries h4 of
            Inl e \<Rightarrow> Inl e
          | Inr (h5, t5) \<Rightarrow>
         (case gt_sain_moveSstar2front count suftab nonspecialentries h5 of
            Inl e \<Rightarrow> Inl e
          | Inr h6 \<Rightarrow>
         (case gt_sain_assignSstarlength env t5 (ptr_add suftab count) h6 of
            Inl e \<Rightarrow> Inl e
          | Inr h7 \<Rightarrow>
         (case gt_sain_assignSstarnames env t5 count suftab h7 of
            Inl e \<Rightarrow> Inl e
          | Inr (h8, numberofnames) \<Rightarrow>
              (if \<not> numberofnames \<le> count then Inl (Assertion_failed 1459)
               else Inr (GT_SAIN_SHOWTIMER timer ''assignSstarnames''
                          (GT_SAIN_SHOWTIMER timer ''assignSstarlength''
                            (GT_SAIN_SHOWTIMER timer ''moverStar2front''
                              (GT_SAIN_SHOWTIMER timer ''induce S suffixes''
                                (GT_SAIN_SHOWTIMER timer ''induce L suffixes'' st1))))
                          \<lparr>heap := h8\<rparr>,
                         t5, numberofnames))))))))))"
proof -
  have e: "gt_sainseq_new_from_encseq env encseq rm h0 = Inr (h, s)
       \<and> sizeof_ulong * (gt_encseq_total_length encseq + 1) < ulong_range
       \<and> sizeof_ulong * gt_encseq_alphabetnumofchars encseq < ulong_range \<longrightarrow>
      (roundtable s \<noteq> Null) = (numofchars s < GT_FIRSTTWOBITS env \<and> totallength s > 1024)"
    using new_from_encseq_roundtable [of env encseq rm h0 h s]
      decide_allocatable [OF assms(1), of "gt_encseq_total_length encseq"
        "gt_encseq_alphabetnumofchars encseq"]
    by auto
  have p: "gt_sainseq_new_from_plainseq env plainseq len h0' = Inr (h', s')
         \<and> sizeof_ulong * (len + 1) < ulong_range \<longrightarrow>
        (roundtable s' \<noteq> Null) = (numofchars s' < GT_FIRSTTWOBITS env \<and> totallength s' > 1024)"
    using new_from_plainseq_roundtable [of env plainseq len h0' h' s']
      decide_allocatable [OF assms(2), of len "UCHAR_MAX + 1"]
    by (auto simp: UCHAR_MAX_def sizeof_ulong_def ulong_range_def)
  have a: "gt_sainseq_new_from_array env arr n nchars (Ptr b off) firstusable suftabentries st0
          = Inr (st, s'')
         \<and> sizeof_ulong * (n + 1) < ulong_range
         \<and> sizeof_ulong * nchars < ulong_range \<longrightarrow>
        (roundtable s'' \<noteq> Null) = (numofchars s'' < GT_FIRSTTWOBITS env \<and> totallength s'' > 1024)"
    using new_from_array_roundtable [of env arr n nchars b off firstusable suftabentries st0 st s'']
      decide_allocatable [OF assms(2), of n nchars]
    by auto
  from e p a rec_naming_without_roundtable [of t env count suftab nonspecialentries timer st1]
  show ?thesis
    by blast
qed

text \<open>
  An encoded sequence of 1025 symbols, the plain sequence \<^verbatim>\<open>aba\<close>, and the sequence of names
  of the first recursion level of \<^verbatim>\<open>banana\<close> in the store that the run has reached there;
  the last conjunct runs the path without round table on \<^verbatim>\<open>aba\<close> after its scan.
\<close>

definition run_encseq :: gt_encseq where
  "run_encseq = \<lparr>enc_symbols = replicate 1025 (Some 0), enc_numofchars = 4\<rparr>"

definition run_seq :: GtSainseq where
  "run_seq = \<lparr>totallength = 1025, numofchars = 4, currentround = 0,
     bucketsize = Ptr 1 0, bucketfillptr = Ptr 2 0, sstarfirstcharcount = Ptr 4 0,
     roundtable = Ptr 3 0, seq = Encseq run_encseq, readmode = GT_READMODE_FORWARD,
     bucketfillptrpoints2suftab = False, bucketsizepoints2suftab = False,
     roundtablepoints2suftab = False\<rparr>"

definition aba_seq :: GtSainseq where
  "aba_seq = \<lparr>totallength = 3, numofchars = 256, currentround = 0,
     bucketsize = Ptr 1 0, bucketfillptr = Ptr 2 0, sstarfirstcharcount = Ptr 3 0,
     roundtable = Null, seq = Plainseq ''aba'', readmode = GT_READMODE_FORWARD,
     bucketfillptrpoints2suftab = False, bucketsizepoints2suftab = False,
     roundtablepoints2suftab = False\<rparr>"

definition names_seq :: GtSainseq where
  "names_seq = \<lparr>totallength = 3, numofchars = 2, currentround = 0,
     bucketsize = Ptr 4 0, bucketfillptr = Ptr 5 0, sstarfirstcharcount = Null,
     roundtable = Null, seq = Array (Ptr 0 3), readmode = GT_READMODE_FORWARD,
     bucketfillptrpoints2suftab = False, bucketsizepoints2suftab = False,
     roundtablepoints2suftab = False\<rparr>"

lemma run_encseq_new:
  "gt_sainseq_new_from_encseq env64 run_encseq GT_READMODE_FORWARD [replicate 1026 0]
   = Inr ([replicate 1026 0, [1025, 0, 0, 0], [0, 0, 0, 0], replicate 8 0, [0, 0, 0, 0]],
          run_seq)"
  by (simp add: ev_defs ev_simps rle run_encseq_def run_seq_def del: One_nat_def nat_1)

lemma aba_plainseq_new:
  "gt_sainseq_new_from_plainseq env64 ''aba'' 3 [replicate 4 0]
   = Inr ([replicate 4 0, replicate 97 0 @ 2 # 1 # replicate 157 0, replicate 256 0,
           replicate 256 0], aba_seq)"
  by (simp add: ev_defs ev_simps rle aba_seq_def del: One_nat_def nat_1)

lemma names_array_new:
  "gt_sainseq_new_from_array env64 (Ptr 0 3) 3 2 (Ptr 0 0) 6 7
     \<lparr>heap = [[0, 0, 0, 0, 0, 1, 0],
              replicate 97 0 @ 3 # 1 # replicate 11 0 @ 2 # replicate 145 0,
              replicate 97 0 @ 2 # replicate 12 4 @ replicate 146 6,
              replicate 97 0 @ 3 # replicate 158 0],
      out = [Ev_level 0 6 256, Ev_buffer 262728 128]\<rparr>
   = Inr (\<lparr>heap = [[0, 0, 0, 0, 0, 1, 0],
                    replicate 97 0 @ 3 # 1 # replicate 11 0 @ 2 # replicate 145 0,
                    replicate 97 0 @ 2 # replicate 12 4 @ replicate 146 6,
                    replicate 97 0 @ 3 # replicate 158 0, [2, 1], [0, 0]],
            out = [Ev_level 0 6 256, Ev_buffer 262728 128, Ev_bucketsize 2 1]\<rparr>,
          names_seq)"
  by (simp add: ev_defs ev_simps rle names_seq_def del: One_nat_def nat_1)

lemma aba_rec_naming:
  "rec_naming env64 aba_seq 1 suftab_ptr 3 False
     \<lparr>heap = [[0, 1, 0, 0], replicate 97 0 @ 2 # 1 # replicate 157 0,
              replicate 97 0 @ 1 # replicate 158 3, replicate 97 0 @ 1 # replicate 158 0],
      out = [Ev_level 0 3 256, Ev_buffer 262728 128]\<rparr>
   = Inr (\<lparr>heap = [[2, 0, 1, 0], replicate 97 0 @ 2 # 1 # replicate 157 0,
                    replicate 97 0 @ 1 # replicate 158 3, replicate 97 0 @ 1 # replicate 158 0],
            out = [Ev_level 0 3 256, Ev_buffer 262728 128]\<rparr>, aba_seq, 1)"
  by (simp add: ev_defs ev_simps rle aba_seq_def del: One_nat_def nat_1)

theorem fastmethod_predicate_witness:
  "ulong_range div sizeof_ulong + GT_COMPAREOFFSET env64 \<le> GT_FIRSTTWOBITS env64
   \<and> ulong_range div sizeof_ulong + 1 \<le> GT_FIRSTTWOBITS env64
   \<and> gt_sainseq_new_from_encseq env64 run_encseq GT_READMODE_FORWARD [replicate 1026 0]
     = Inr ([replicate 1026 0, [1025, 0, 0, 0], [0, 0, 0, 0], replicate 8 0, [0, 0, 0, 0]],
            run_seq)
   \<and> sizeof_ulong * (gt_encseq_total_length run_encseq + 1) < ulong_range
   \<and> sizeof_ulong * gt_encseq_alphabetnumofchars run_encseq < ulong_range
   \<and> (roundtable run_seq \<noteq> Null)
     = (numofchars run_seq < GT_FIRSTTWOBITS env64 \<and> totallength run_seq > 1024)
   \<and> gt_sainseq_new_from_plainseq env64 ''aba'' 3 [replicate 4 0]
     = Inr ([replicate 4 0, replicate 97 0 @ 2 # 1 # replicate 157 0, replicate 256 0,
             replicate 256 0], aba_seq)
   \<and> sizeof_ulong * (3 + 1) < ulong_range
   \<and> (roundtable aba_seq \<noteq> Null)
     = (numofchars aba_seq < GT_FIRSTTWOBITS env64 \<and> totallength aba_seq > 1024)
   \<and> gt_sainseq_new_from_array env64 (Ptr 0 3) 3 2 (Ptr 0 0) 6 7
       \<lparr>heap = [[0, 0, 0, 0, 0, 1, 0],
                replicate 97 0 @ 3 # 1 # replicate 11 0 @ 2 # replicate 145 0,
                replicate 97 0 @ 2 # replicate 12 4 @ replicate 146 6,
                replicate 97 0 @ 3 # replicate 158 0],
        out = [Ev_level 0 6 256, Ev_buffer 262728 128]\<rparr>
     = Inr (\<lparr>heap = [[0, 0, 0, 0, 0, 1, 0],
                      replicate 97 0 @ 3 # 1 # replicate 11 0 @ 2 # replicate 145 0,
                      replicate 97 0 @ 2 # replicate 12 4 @ replicate 146 6,
                      replicate 97 0 @ 3 # replicate 158 0, [2, 1], [0, 0]],
              out = [Ev_level 0 6 256, Ev_buffer 262728 128, Ev_bucketsize 2 1]\<rparr>,
            names_seq)
   \<and> sizeof_ulong * 2 < ulong_range
   \<and> (roundtable names_seq \<noteq> Null)
     = (numofchars names_seq < GT_FIRSTTWOBITS env64 \<and> totallength names_seq > 1024)
   \<and> roundtable aba_seq = Null
   \<and> rec_naming env64 aba_seq 1 suftab_ptr 3 False
       \<lparr>heap = [[0, 1, 0, 0], replicate 97 0 @ 2 # 1 # replicate 157 0,
                replicate 97 0 @ 1 # replicate 158 3, replicate 97 0 @ 1 # replicate 158 0],
        out = [Ev_level 0 3 256, Ev_buffer 262728 128]\<rparr>
     = Inr (\<lparr>heap = [[2, 0, 1, 0], replicate 97 0 @ 2 # 1 # replicate 157 0,
                      replicate 97 0 @ 1 # replicate 158 3,
                      replicate 97 0 @ 1 # replicate 158 0],
              out = [Ev_level 0 3 256, Ev_buffer 262728 128]\<rparr>, aba_seq, 1)"
proof -
  have e1: "ulong_range div sizeof_ulong + GT_COMPAREOFFSET env64 \<le> GT_FIRSTTWOBITS env64"
    by (simp add: ulong_range_def sizeof_ulong_def env64_def)
  have e2: "ulong_range div sizeof_ulong + 1 \<le> GT_FIRSTTWOBITS env64"
    by (simp add: ulong_range_def sizeof_ulong_def env64_def)
  note p = fastmethod_predicate [OF e1 e2, where encseq = run_encseq and plainseq = "''aba''"
      and len = 3 and arr = "Ptr 0 3" and n = 3 and nchars = 2 and b = 0 and off = 0
      and t = aba_seq]
  have a1: "sizeof_ulong * (gt_encseq_total_length run_encseq + 1) < ulong_range"
    by (simp add: ulong_range_def sizeof_ulong_def run_encseq_def gt_encseq_total_length_def)
  have a2: "sizeof_ulong * gt_encseq_alphabetnumofchars run_encseq < ulong_range"
    by (simp add: ulong_range_def sizeof_ulong_def run_encseq_def
          gt_encseq_alphabetnumofchars_def)
  have a3: "sizeof_ulong * (3 + 1) < ulong_range"
    by (simp add: ulong_range_def sizeof_ulong_def)
  have a4: "sizeof_ulong * 2 < ulong_range"
    by (simp add: ulong_range_def sizeof_ulong_def)
  have n: "roundtable aba_seq = Null"
    by (simp add: aba_seq_def)
  from p [THEN conjunct1] run_encseq_new a1 a2
  have c1: "(roundtable run_seq \<noteq> Null)
     = (numofchars run_seq < GT_FIRSTTWOBITS env64 \<and> totallength run_seq > 1024)"
    by blast
  from p [THEN conjunct2, THEN conjunct1] aba_plainseq_new a3
  have c2: "(roundtable aba_seq \<noteq> Null)
     = (numofchars aba_seq < GT_FIRSTTWOBITS env64 \<and> totallength aba_seq > 1024)"
    by blast
  from p [THEN conjunct2, THEN conjunct2, THEN conjunct1] names_array_new a3 a4
  have c3: "(roundtable names_seq \<noteq> Null)
     = (numofchars names_seq < GT_FIRSTTWOBITS env64 \<and> totallength names_seq > 1024)"
    by blast
  from e1 e2 run_encseq_new a1 a2 c1 aba_plainseq_new a3 c2 names_array_new a4 c3 n
    aba_rec_naming
  show ?thesis
    by blast
qed


section \<open>What the scan writes at an S*-position\<close>































lemma aba_endbuckets:
  "gt_sain_endbuckets aba_seq
     [replicate 4 0, replicate 97 0 @ 2 # 1 # replicate 157 0, replicate 256 0, replicate 256 0]
   = Inr [replicate 4 0, replicate 97 0 @ 2 # 1 # replicate 157 0,
          replicate 97 0 @ 2 # replicate 158 3, replicate 256 0]"
  by (simp add: ev_defs ev_simps rle aba_seq_def del: One_nat_def nat_1)








end
